theory Spec2Isabelle
  imports Complex_Main
begin

text \<open>
  A model of the coverage checker of \<open>src/index.js\<close>: the parser of clover reports, the
  sum of several reports, the comparison of two snapshots with its message, the badge
  colour, and the two modes of a run, \<open>check\<close> and \<open>update\<close>. The collaborators of a run
  (the glob, the file system, the XML parser, the HTTP reads, the clock and git) are the
  fields of an environment; a function that can stop the run returns a failure or its
  result.
\<close>

section \<open>JavaScript numbers\<close>

text \<open>
  The program computes with JavaScript numbers. A number is modelled as a value of
  \<open>jsnum\<close>: a finite rational (\<open>Fin 0\<close> is the positive zero), the negative zero, the two
  infinities, or NaN. Finite arithmetic is exact: the rounding of IEEE doubles to 53 bits,
  overflow and underflow are not modelled. The special values follow IEEE 754 as
  ECMAScript defines them.
\<close>

datatype jsnum = Fin rat | NZero | PInf | NInf | NaN

fun is_neg :: "jsnum \<Rightarrow> bool" where
  "is_neg (Fin r) = (r < 0)"
| "is_neg NZero = True"
| "is_neg PInf = False"
| "is_neg NInf = True"
| "is_neg NaN = False"

fun is_zero :: "jsnum \<Rightarrow> bool" where
  "is_zero (Fin r) = (r = 0)"
| "is_zero NZero = True"
| "is_zero _ = False"

fun is_inf :: "jsnum \<Rightarrow> bool" where
  "is_inf PInf = True"
| "is_inf NInf = True"
| "is_inf _ = False"

fun is_finite :: "jsnum \<Rightarrow> bool" where
  "is_finite (Fin r) = True"
| "is_finite NZero = True"
| "is_finite _ = False"

text \<open>The mathematical value of a finite number (both zeros are 0).\<close>

fun val :: "jsnum \<Rightarrow> rat" where
  "val (Fin r) = r"
| "val _ = 0"

definition signed_zero :: "bool \<Rightarrow> jsnum" where
  "signed_zero neg = (if neg then NZero else Fin 0)"

definition signed_inf :: "bool \<Rightarrow> jsnum" where
  "signed_inf neg = (if neg then NInf else PInf)"

text \<open>A finite number from a sign and a magnitude \<open>m \<ge> 0\<close>.\<close>

definition signed_fin :: "bool \<Rightarrow> rat \<Rightarrow> jsnum" where
  "signed_fin neg m = (if m = 0 then signed_zero neg else Fin (if neg then - m else m))"

fun js_neg :: "jsnum \<Rightarrow> jsnum" where
  "js_neg (Fin r) = (if r = 0 then NZero else Fin (- r))"
| "js_neg NZero = Fin 0"
| "js_neg PInf = NInf"
| "js_neg NInf = PInf"
| "js_neg NaN = NaN"

text \<open>\<open>a + b\<close>: the sum of two zeros is negative only when both are; \<open>x + (-x)\<close> is \<open>+0\<close>.\<close>

fun js_add :: "jsnum \<Rightarrow> jsnum \<Rightarrow> jsnum" where
  "js_add NaN _ = NaN"
| "js_add _ NaN = NaN"
| "js_add PInf NInf = NaN"
| "js_add NInf PInf = NaN"
| "js_add PInf _ = PInf"
| "js_add _ PInf = PInf"
| "js_add NInf _ = NInf"
| "js_add _ NInf = NInf"
| "js_add NZero NZero = NZero"
| "js_add NZero (Fin b) = Fin b"
| "js_add (Fin a) NZero = Fin a"
| "js_add (Fin a) (Fin b) = Fin (a + b)"

definition js_sub :: "jsnum \<Rightarrow> jsnum \<Rightarrow> jsnum" where
  "js_sub a b = js_add a (js_neg b)"

definition js_mul :: "jsnum \<Rightarrow> jsnum \<Rightarrow> jsnum" where
  "js_mul a b =
     (if a = NaN \<or> b = NaN then NaN
      else if is_inf a \<or> is_inf b then
        (if is_zero a \<or> is_zero b then NaN else signed_inf (is_neg a \<noteq> is_neg b))
      else signed_fin (is_neg a \<noteq> is_neg b) (\<bar>val a\<bar> * \<bar>val b\<bar>))"

definition js_div :: "jsnum \<Rightarrow> jsnum \<Rightarrow> jsnum" where
  "js_div a b =
     (if a = NaN \<or> b = NaN then NaN
      else if is_inf a then (if is_inf b then NaN else signed_inf (is_neg a \<noteq> is_neg b))
      else if is_inf b then signed_zero (is_neg a \<noteq> is_neg b)
      else if is_zero b then (if is_zero a then NaN else signed_inf (is_neg a \<noteq> is_neg b))
      else signed_fin (is_neg a \<noteq> is_neg b) (\<bar>val a\<bar> / \<bar>val b\<bar>))"

text \<open>\<open>a < b\<close>: false as soon as one side is NaN; the two zeros compare equal.\<close>

fun js_lt :: "jsnum \<Rightarrow> jsnum \<Rightarrow> bool" where
  "js_lt NaN _ = False"
| "js_lt _ NaN = False"
| "js_lt PInf _ = False"
| "js_lt _ PInf = True"
| "js_lt _ NInf = False"
| "js_lt NInf _ = True"
| "js_lt a b = (val a < val b)"

text \<open>\<open>a === b\<close> on numbers: NaN equals nothing, the two zeros are equal.\<close>

fun js_eq :: "jsnum \<Rightarrow> jsnum \<Rightarrow> bool" where
  "js_eq NaN _ = False"
| "js_eq _ NaN = False"
| "js_eq PInf b = (b = PInf)"
| "js_eq NInf b = (b = NInf)"
| "js_eq a b = (is_finite b \<and> val a = val b)"

section \<open>Decimal strings\<close>

definition digit_char :: "nat \<Rightarrow> char" where
  "digit_char d = ''0123456789'' ! d"

definition is_digit :: "char \<Rightarrow> bool" where
  "is_digit c = (c \<in> set ''0123456789'')"

definition digit_val :: "char \<Rightarrow> nat" where
  "digit_val c = of_char c - 48"

text \<open>The decimal digits of a natural number, without leading zeros.\<close>

function nat_string :: "nat \<Rightarrow> string" where
  "nat_string n = (if n < 10 then [digit_char n] else nat_string (n div 10) @ [digit_char (n mod 10)])"
  by pat_completeness auto
termination
  by (relation "measure id") auto

definition digits_val :: "string \<Rightarrow> nat" where
  "digits_val s = foldl (\<lambda>acc c. 10 * acc + digit_val c) 0 s"

text \<open>
  The white space that \<open>parseInt\<close> and \<open>parseFloat\<close> skip at the start of their input:
  tab, line feed, vertical tab, form feed, carriage return and space (the white space
  outside ASCII is not modelled).
\<close>

definition is_white :: "char \<Rightarrow> bool" where
  "is_white c = (of_char c \<in> {9::nat, 10, 11, 12, 13, 32})"

text \<open>
  \<open>Number.prototype.toFixed(3)\<close>. A non-finite number prints as its name. Otherwise the
  sign is taken off, and a magnitude of \<open>10^21\<close> or more prints as \<open>Number::toString\<close>
  prints it (a builtin taken as the parameter \<open>ts\<close>); below that, \<open>n\<close> is the integer
  nearest to a thousand times the magnitude, the larger one on a tie, printed with its
  last three digits after the point.
\<close>

definition frac3 :: "nat \<Rightarrow> string" where
  "frac3 f = [digit_char (f div 100), digit_char (f div 10 mod 10), digit_char (f mod 10)]"

definition fixed3_digits :: "rat \<Rightarrow> string" where
  "fixed3_digits m =
     (let n = nat \<lfloor>m * 1000 + 1 / 2\<rfloor> in nat_string (n div 1000) @ ''.'' @ frac3 (n mod 1000))"

fun toFixed3 :: "(jsnum \<Rightarrow> string) \<Rightarrow> jsnum \<Rightarrow> string" where
  "toFixed3 ts NaN = ''NaN''"
| "toFixed3 ts PInf = ''Infinity''"
| "toFixed3 ts NInf = ''-Infinity''"
| "toFixed3 ts NZero = fixed3_digits 0"
| "toFixed3 ts (Fin r) =
     (if r < 0 then ''-'' else '''') @
     (if 10 ^ 21 \<le> \<bar>r\<bar> then ts (Fin \<bar>r\<bar>) else fixed3_digits \<bar>r\<bar>)"

text \<open>
  \<open>parseInt(s, 10)\<close>: skip the leading white space, read a sign, then the longest run of
  decimal digits; NaN when there is none; a zero keeps the sign.
\<close>

definition parseInt10 :: "string \<Rightarrow> jsnum" where
  "parseInt10 s =
     (let s1 = dropWhile is_white s;
          neg = (s1 \<noteq> [] \<and> hd s1 = CHR ''-'');
          s2 = (if s1 \<noteq> [] \<and> (hd s1 = CHR ''+'' \<or> hd s1 = CHR ''-'') then tl s1 else s1);
          z = takeWhile is_digit s2
      in if z = [] then NaN else signed_fin neg (of_nat (digits_val z)))"

text \<open>
  \<open>parseFloat(s)\<close>: skip the leading white space and read the longest prefix that is a
  decimal literal: a sign, then \<open>Infinity\<close>, or digits with an optional fraction and an
  optional exponent (an exponent mark without digits is not part of the literal). NaN when
  no prefix is a literal.
\<close>

definition exponent_part :: "string \<Rightarrow> int" where
  "exponent_part s =
     (if s \<noteq> [] \<and> (hd s = CHR ''e'' \<or> hd s = CHR ''E'') then
        (let t = tl s;
             neg = (t \<noteq> [] \<and> hd t = CHR ''-'');
             u = (if t \<noteq> [] \<and> (hd t = CHR ''+'' \<or> hd t = CHR ''-'') then tl t else t);
             z = takeWhile is_digit u
         in if z = [] then 0 else if neg then - int (digits_val z) else int (digits_val z))
      else 0)"

definition scale10 :: "rat \<Rightarrow> int \<Rightarrow> rat" where
  "scale10 m e = (if 0 \<le> e then m * 10 ^ nat e else m / 10 ^ nat (- e))"

definition parseFloat :: "string \<Rightarrow> jsnum" where
  "parseFloat s =
     (let s1 = dropWhile is_white s;
          neg = (s1 \<noteq> [] \<and> hd s1 = CHR ''-'');
          s2 = (if s1 \<noteq> [] \<and> (hd s1 = CHR ''+'' \<or> hd s1 = CHR ''-'') then tl s1 else s1)
      in if take 8 s2 = ''Infinity'' then signed_inf neg
         else
           (let ip = takeWhile is_digit s2;
                r1 = dropWhile is_digit s2;
                dot = (r1 \<noteq> [] \<and> hd r1 = CHR ''.'');
                fp = (if dot then takeWhile is_digit (tl r1) else []);
                r2 = (if dot then dropWhile is_digit (tl r1) else r1)
            in if ip = [] \<and> fp = [] then NaN
               else signed_fin neg
                      (scale10 (of_nat (digits_val ip) + of_nat (digits_val fp) / 10 ^ length fp)
                         (exponent_part r2))))"

section \<open>Data model\<close>

text \<open>
  How a run stops early: \<open>Exit\<close> is the program's own \<open>fail\<close> (it marks the run failed and
  ends the process), \<open>Thrown\<close> is an exception or a rejected promise, which \<open>action\<close>
  catches to mark the run failed.
\<close>

datatype failure = Exit string | Thrown string

record snapshot =
  total :: jsnum
  covered :: jsnum
  coverage :: jsnum

text \<open>
  A node of the tree that \<open>xml2js\<close> returns; \<open>name\<close>, \<open>attributes\<close> and \<open>elements\<close> are
  \<open>None\<close> where the JavaScript object has no such property.
\<close>

datatype node = Node (name: "string option") (attributes: "(string \<times> string) list option")
  (elements: "node list option")

text \<open>
  An entry of \<open>COVERAGE_FILES\<close>. Its property \<open>coverage\<close> (the path or glob of the report)
  is the field \<open>coverage_glob\<close> here, since \<open>coverage\<close> names the field of a snapshot.
\<close>

record file_conf =
  coverage_glob :: string
  summary :: string
  label :: string
  badge :: "string option"

record 'a response =
  status :: nat
  json :: "failure + 'a"

record history_entry =
  time :: string
  entry_coverage :: jsnum

text \<open>The history object: for each label, the array of its entries.\<close>

type_synonym ledger = "(string \<times> history_entry list) list"

text \<open>The content of a file written in the working directory of the clone.\<close>

datatype content = SnapshotJson snapshot | BadgeText string | HistoryJson ledger

text \<open>
  The configuration and the collaborators of a run: the inputs of the action, the builtins
  \<open>Number::toString\<close> and \<open>encodeURIComponent\<close>, the file system, the XML parser, the
  HTTP reads, the clock (\<open>now i\<close> is the time read in the \<open>i\<close>-th iteration of the loop of
  \<open>update\<close>) and the version-control commands.
\<close>

record env =
  ACTION :: string
  COVERAGE_FILES :: "file_conf list"
  GITHUB_REF :: string
  numToString :: "jsnum \<Rightarrow> string"
  encodeURIComponent :: "string \<Rightarrow> string"
  glob :: "string \<Rightarrow> failure + string list"
  readFileSync :: "string \<Rightarrow> failure + string"
  xml2js :: "string \<Rightarrow> failure + node"
  fetchBaseCoverage :: "string \<Rightarrow> failure + snapshot response"
  fetchHistory :: "failure + ledger response"
  fetchBadge :: "string \<Rightarrow> failure + string"
  now :: "nat \<Rightarrow> string"
  clone :: "failure + string"
  push :: "string \<Rightarrow> failure option"

text \<open>
  A JavaScript object with string keys is the list of its properties in the order of
  \<open>Object.keys\<close>, each key once. An assignment replaces the value of a key in place or
  adds the key last. Keys that are array indices, which JavaScript lists first, and keys
  that name a property of \<open>Object.prototype\<close> are not modelled.
\<close>

fun obj_set :: "(string \<times> 'a) list \<Rightarrow> string \<Rightarrow> 'a \<Rightarrow> (string \<times> 'a) list" where
  "obj_set [] k v = [(k, v)]"
| "obj_set ((k', v') # ps) k v = (if k' = k then (k, v) # ps else (k', v') # obj_set ps k v)"

definition newline :: string where
  "newline = [CHR 0x0A]"

text \<open>\<open>Array.prototype.join\<close>.\<close>

fun join :: "string \<Rightarrow> string list \<Rightarrow> string" where
  "join sep [] = []"
| "join sep [x] = x"
| "join sep (x # y # ys) = x @ sep @ join sep (y # ys)"

section \<open>Report parser\<close>

definition HISTORY_FILENAME :: string where
  "HISTORY_FILENAME = ''coverage-history.json''"

definition findNode :: "node \<Rightarrow> string \<Rightarrow> failure + node" where
  "findNode tree nm =
     (case elements tree of
        None \<Rightarrow> Inl (Exit ''Wrong coverage file format'')
      | Some es \<Rightarrow>
          (case find (\<lambda>e. name e = Some nm) es of
             None \<Rightarrow> Inl (Exit ''Wrong coverage file format'')
           | Some element \<Rightarrow> Inr element))"

definition retrieveGlobalMetricsElement :: "node \<Rightarrow> failure + node" where
  "retrieveGlobalMetricsElement js =
     (case findNode js ''coverage'' of
        Inl e \<Rightarrow> Inl e
      | Inr c \<Rightarrow>
          (case findNode c ''project'' of
             Inl e \<Rightarrow> Inl e
           | Inr p \<Rightarrow> findNode p ''metrics''))"

text \<open>\<open>parseInt(attrs[k], 10)\<close>: a missing attribute is \<open>undefined\<close>, which parses to NaN.\<close>

definition parseIntAttr :: "(string \<times> string) list \<Rightarrow> string \<Rightarrow> jsnum" where
  "parseIntAttr attrs k = (case map_of attrs k of None \<Rightarrow> NaN | Some s \<Rightarrow> parseInt10 s)"

text \<open>\<open>parseFloat((100 * covered / total).toFixed(3))\<close>.\<close>

definition percentage :: "(jsnum \<Rightarrow> string) \<Rightarrow> jsnum \<Rightarrow> jsnum \<Rightarrow> jsnum" where
  "percentage ts cov tot = parseFloat (toFixed3 ts (js_div (js_mul (Fin 100) cov) tot))"

definition parseCoverage :: "env \<Rightarrow> string \<Rightarrow> failure + snapshot" where
  "parseCoverage env file =
     (case glob env file of
        Inl e \<Rightarrow> Inl e
      | Inr files \<Rightarrow>
          (case files of
             [] \<Rightarrow> Inl (Exit ''Coverage file not found :/'')
           | f # _ \<Rightarrow>
               (case readFileSync env f of
                  Inl e \<Rightarrow> Inl e
                | Inr text \<Rightarrow>
                    (case xml2js env text of
                       Inl e \<Rightarrow> Inl e
                     | Inr js \<Rightarrow>
                         (case retrieveGlobalMetricsElement js of
                            Inl e \<Rightarrow> Inl e
                          | Inr metrics \<Rightarrow>
                              (case attributes metrics of
                                 None \<Rightarrow> Inl (Thrown ''TypeError'')
                               | Some attrs \<Rightarrow>
                                   (let tot = parseIntAttr attrs ''elements'';
                                        cov = parseIntAttr attrs ''coveredelements''
                                    in Inr \<lparr>total = tot, covered = cov,
                                            coverage = percentage (numToString env) cov tot\<rparr>)))))))"

fun parseCoverages_loop ::
  "env \<Rightarrow> (string \<times> snapshot) list \<Rightarrow> file_conf list \<Rightarrow> failure + (string \<times> snapshot) list" where
  "parseCoverages_loop env reports [] = Inr reports"
| "parseCoverages_loop env reports (file # files) =
     (case parseCoverage env (coverage_glob file) of
        Inl e \<Rightarrow> Inl e
      | Inr s \<Rightarrow> parseCoverages_loop env (obj_set reports (summary file) s) files)"

definition parseCoverages :: "env \<Rightarrow> failure + (string \<times> snapshot) list" where
  "parseCoverages env = parseCoverages_loop env [] (COVERAGE_FILES env)"

section \<open>Aggregation and badge\<close>

fun sumCoverages_loop :: "jsnum \<times> jsnum \<Rightarrow> snapshot list \<Rightarrow> jsnum \<times> jsnum" where
  "sumCoverages_loop out [] = out"
| "sumCoverages_loop (t, c) (s # ss) = sumCoverages_loop (js_add t (total s), js_add c (covered s)) ss"

definition sumCoverages :: "(jsnum \<Rightarrow> string) \<Rightarrow> (string \<times> snapshot) list \<Rightarrow> snapshot" where
  "sumCoverages ts coverages =
     (let (t, c) = sumCoverages_loop (Fin 0, Fin 0) (map snd coverages)
      in \<lparr>total = t, covered = c, coverage = percentage ts c t\<rparr>)"

record color_step =
  threshold :: jsnum
  color :: string

definition colors :: "color_step list" where
  "colors = [\<lparr>threshold = Fin 50, color = ''red''\<rparr>,
             \<lparr>threshold = Fin 75, color = ''orange''\<rparr>,
             \<lparr>threshold = Fin 95, color = ''yellow''\<rparr>]"

fun processBadgeColor_loop :: "color_step list \<Rightarrow> jsnum \<Rightarrow> string" where
  "processBadgeColor_loop [] c = ''green''"
| "processBadgeColor_loop (s # ss) c =
     (if js_lt c (threshold s) then color s else processBadgeColor_loop ss c)"

definition processBadgeColor :: "jsnum \<Rightarrow> string" where
  "processBadgeColor c = processBadgeColor_loop colors c"

definition getBadgeUrl :: "env \<Rightarrow> jsnum \<Rightarrow> string \<Rightarrow> string" where
  "getBadgeUrl env c lbl =
     ''https://img.shields.io/static/v1?label='' @ encodeURIComponent env lbl @
     ''&message='' @ encodeURIComponent env (numToString env c) @
     ''%25&color='' @ processBadgeColor c @ ''&style=for-the-badge''"

section \<open>Snapshot comparator\<close>

text \<open>The sign \<open>\<Delta>\<close> that starts the delta line, as its three bytes in UTF-8.\<close>

definition delta_sign :: string where
  "delta_sign = [CHR 0xE2, CHR 0x88, CHR 0x86]"

definition buildDeltaMessage :: "env \<Rightarrow> snapshot \<Rightarrow> snapshot \<Rightarrow> string" where
  "buildDeltaMessage env oldCoverage newCoverage =
     join newline
       ['''',
        ''| Measure | Main branch | '' @ GITHUB_REF env @ '' |'',
        ''| --- | --- | --- |'',
        ''| Coverage | '' @ numToString env (coverage oldCoverage) @ ''% | '' @
          numToString env (coverage newCoverage) @ ''% |'',
        ''| Total lines | '' @ numToString env (total oldCoverage) @ '' | '' @
          numToString env (total newCoverage) @ '' |'',
        ''| Covered lines | '' @ numToString env (covered oldCoverage) @ '' | '' @
          numToString env (covered newCoverage) @ '' |'',
        '''',
        delta_sign @ '' '' @
          toFixed3 (numToString env) (js_sub (coverage newCoverage) (coverage oldCoverage)),
        '''']"

definition buildFailureMessage :: "env \<Rightarrow> snapshot \<Rightarrow> snapshot \<Rightarrow> string" where
  "buildFailureMessage env oldCoverage newCoverage =
     '':x: Your code coverage has been degraded :sob:'' @
     buildDeltaMessage env oldCoverage newCoverage"

definition buildSuccessMessage :: "env \<Rightarrow> snapshot \<Rightarrow> snapshot \<Rightarrow> string" where
  "buildSuccessMessage env oldCoverage newCoverage =
     '':white_check_mark: Your code coverage has not been degraded :tada:'' @
     buildDeltaMessage env oldCoverage newCoverage"

text \<open>
  The result of a comparison: the message, and \<open>setFailed\<close>, which tells whether the
  comparison called \<open>core.setFailed\<close> (the verdict fail).
\<close>

record verdict =
  setFailed :: bool
  message :: string

definition buildResultMessage :: "env \<Rightarrow> snapshot \<Rightarrow> snapshot \<Rightarrow> verdict" where
  "buildResultMessage env oldCoverage newCoverage =
     (if js_lt (coverage newCoverage) (coverage oldCoverage)
      then \<lparr>setFailed = True, message = buildFailureMessage env oldCoverage newCoverage\<rparr>
      else \<lparr>setFailed = False, message = buildSuccessMessage env oldCoverage newCoverage\<rparr>)"

section \<open>Update mode\<close>

text \<open>
  Lines 248 and 249 of \<open>update\<close>: the history is the decoded body of the response when its
  status is 200, and the empty object for every other status.
\<close>

definition loadHistory :: "env \<Rightarrow> failure + ledger" where
  "loadHistory env =
     (case fetchHistory env of
        Inl e \<Rightarrow> Inl e
      | Inr historyFile \<Rightarrow>
          (if status historyFile = 200 then json historyFile else Inr []))"

record update_state =
  history :: ledger
  writes :: "(string \<times> content) list"

text \<open>
  One iteration of the loop of \<open>update\<close>, the \<open>i\<close>-th, for the key \<open>summaryFile\<close>. The badge
  is fetched when \<open>conf.badge\<close> is truthy: configured, and not the empty string.
\<close>

definition update_step ::
  "env \<Rightarrow> (string \<times> snapshot) list \<Rightarrow> string \<Rightarrow> update_state \<Rightarrow> nat \<Rightarrow> string
     \<Rightarrow> failure + update_state" where
  "update_step env coverages workingDir st i summaryFile =
     (case map_of coverages summaryFile of
        None \<Rightarrow> Inl (Thrown ''TypeError'')
      | Some c \<Rightarrow>
          (case find (\<lambda>e. summary e = summaryFile) (COVERAGE_FILES env) of
             None \<Rightarrow> Inl (Thrown ''TypeError'')
           | Some conf \<Rightarrow>
               (let w1 = writes st @ [(workingDir @ ''/'' @ summaryFile, SnapshotJson c)];
                    w2 = (case badge conf of
                            None \<Rightarrow> Inr w1
                          | Some b \<Rightarrow>
                              (if b = [] then Inr w1
                               else
                                 (case fetchBadge env (getBadgeUrl env (coverage c) (label conf)) of
                                    Inl e \<Rightarrow> Inl e
                                  | Inr badgeContent \<Rightarrow>
                                      Inr (w1 @ [(workingDir @ ''/'' @ b,
                                                  BadgeText badgeContent)]))))
                in case w2 of
                     Inl e \<Rightarrow> Inl e
                   | Inr ws \<Rightarrow>
                       (let h = history st;
                            previous = (case map_of h (label conf) of None \<Rightarrow> [] | Some es \<Rightarrow> es)
                        in Inr \<lparr>history = obj_set h (label conf)
                                    (previous @ [\<lparr>time = now env i, entry_coverage = coverage c\<rparr>]),
                                writes = ws\<rparr>))))"

fun update_loop ::
  "env \<Rightarrow> (string \<times> snapshot) list \<Rightarrow> string \<Rightarrow> update_state \<Rightarrow> nat \<Rightarrow> string list
     \<Rightarrow> failure + update_state" where
  "update_loop env coverages workingDir st i [] = Inr st"
| "update_loop env coverages workingDir st i (k # ks) =
     (case update_step env coverages workingDir st i k of
        Inl e \<Rightarrow> Inl e
      | Inr st' \<Rightarrow> update_loop env coverages workingDir st' (Suc i) ks)"

text \<open>
  \<open>update\<close> returns the files it wrote in the clone, in the order of the writes, once
  \<open>push\<close> has published them; a run that stops before has published nothing.
\<close>

definition update :: "env \<Rightarrow> (string \<times> snapshot) list \<Rightarrow> failure + (string \<times> content) list" where
  "update env coverages =
     (case clone env of
        Inl e \<Rightarrow> Inl e
      | Inr workingDir \<Rightarrow>
          (case loadHistory env of
             Inl e \<Rightarrow> Inl e
           | Inr h \<Rightarrow>
               (case update_loop env coverages workingDir \<lparr>history = h, writes = []\<rparr> 0
                       (map fst coverages) of
                  Inl e \<Rightarrow> Inl e
                | Inr st \<Rightarrow>
                    (let ws = writes st @
                           [(workingDir @ ''/'' @ HISTORY_FILENAME, HistoryJson (history st))]
                     in case push env workingDir of
                          Some e \<Rightarrow> Inl e
                        | None \<Rightarrow> Inr ws))))"

section \<open>Check mode\<close>

record check_state =
  baseCoverages :: "(string \<times> snapshot) list"
  messages :: "string list"
  failed :: bool

text \<open>One iteration of the loop of \<open>check\<close>, for the key \<open>summaryFile\<close>.\<close>

definition check_step ::
  "env \<Rightarrow> (string \<times> snapshot) list \<Rightarrow> check_state \<Rightarrow> string \<Rightarrow> failure + check_state" where
  "check_step env coverages st summaryFile =
     (case fetchBaseCoverage env summaryFile of
        Inl e \<Rightarrow> Inl e
      | Inr baseCoverageResult \<Rightarrow>
          (if status baseCoverageResult = 404 then
             (case map_of coverages summaryFile of
                None \<Rightarrow> Inl (Thrown ''TypeError'')
              | Some c \<Rightarrow> Inr st)
           else
             (case json baseCoverageResult of
                Inl e \<Rightarrow> Inl e
              | Inr base \<Rightarrow>
                  (case find (\<lambda>e. summary e = summaryFile) (COVERAGE_FILES env) of
                     None \<Rightarrow> Inl (Thrown ''TypeError'')
                   | Some conf \<Rightarrow>
                       (case map_of coverages summaryFile of
                          None \<Rightarrow> Inl (Thrown ''TypeError'')
                        | Some c \<Rightarrow>
                            (let r = buildResultMessage env base c
                             in Inr \<lparr>baseCoverages = obj_set (baseCoverages st) summaryFile base,
                                     messages = messages st @
                                       [''*'' @ label conf @ ''* '' @ newline @ newline @ message r],
                                     failed = (failed st \<or> setFailed r)\<rparr>))))))"

fun check_loop ::
  "env \<Rightarrow> (string \<times> snapshot) list \<Rightarrow> check_state \<Rightarrow> string list \<Rightarrow> failure + check_state" where
  "check_loop env coverages st [] = Inr st"
| "check_loop env coverages st (k # ks) =
     (case check_step env coverages st k of
        Inl e \<Rightarrow> Inl e
      | Inr st' \<Rightarrow> check_loop env coverages st' ks)"

definition divider :: string where
  "divider = newline @ ''---'' @ newline"

text \<open>
  \<open>check\<close> returns the message it hands to \<open>postMessageOnPullRequest\<close>, with \<open>setFailed\<close>
  telling whether one of its comparisons marked the run failed.
\<close>

definition check :: "env \<Rightarrow> (string \<times> snapshot) list \<Rightarrow> failure + verdict" where
  "check env coverages =
     (case check_loop env coverages \<lparr>baseCoverages = [], messages = [], failed = False\<rparr>
             (map fst coverages) of
        Inl e \<Rightarrow> Inl e
      | Inr st \<Rightarrow>
          (if length (map fst coverages) > 1 then
             (let globalBaseCoverage = sumCoverages (numToString env) (baseCoverages st);
                  globalCoverage = sumCoverages (numToString env) coverages;
                  r = buildResultMessage env globalBaseCoverage globalCoverage
              in Inr \<lparr>setFailed = (failed st \<or> setFailed r),
                      message = join divider
                        (messages st @ [''*Global* '' @ newline @ newline @ message r])\<rparr>)
           else Inr \<lparr>setFailed = failed st, message = join divider (messages st)\<rparr>))"

section \<open>The run\<close>

datatype run = Updated "(string \<times> content) list" | Checked verdict

definition action :: "env \<Rightarrow> failure + run" where
  "action env =
     (case parseCoverages env of
        Inl e \<Rightarrow> Inl e
      | Inr coverages \<Rightarrow>
          (if ACTION env = ''update'' then
             (case update env coverages of Inl e \<Rightarrow> Inl e | Inr ws \<Rightarrow> Inr (Updated ws))
           else
             (case check env coverages of Inl e \<Rightarrow> Inl e | Inr v \<Rightarrow> Inr (Checked v))))"

section \<open>Rounding to three decimals\<close>

text \<open>
  The rounding of the specification, \<open>round(x, 3)\<close>, on a magnitude: the multiple of
  \<open>1/1000\<close> nearest to \<open>x\<close>, the larger one on a tie.
\<close>

definition round3 :: "rat \<Rightarrow> rat" where
  "round3 m = of_int \<lfloor>m * 1000 + 1 / 2\<rfloor> / 1000"

section \<open>Example inputs\<close>

text \<open>
  \<open>Number::toString\<close> on the integers, the only numbers the examples print; the other
  finite numbers print as their integer part here.
\<close>

definition example_numToString :: "jsnum \<Rightarrow> string" where
  "example_numToString x =
     (case x of
        Fin r \<Rightarrow> (if r < 0 then ''-'' else '''') @ nat_string (nat \<lfloor>\<bar>r\<bar>\<rfloor>)
      | NZero \<Rightarrow> ''0''
      | PInf \<Rightarrow> ''Infinity''
      | NInf \<Rightarrow> ''-Infinity''
      | NaN \<Rightarrow> ''NaN'')"

text \<open>The snapshots of the comparison example: 80 of 100 covered before, 79 of 100 after.\<close>

definition snapshot_80 :: snapshot where
  "snapshot_80 = \<lparr>total = Fin 100, covered = Fin 80, coverage = Fin 80\<rparr>"

definition snapshot_79 :: snapshot where
  "snapshot_79 = \<lparr>total = Fin 100, covered = Fin 79, coverage = Fin 79\<rparr>"

text \<open>
  The tree of a clover report whose metrics node carries the given \<open>elements\<close> and
  \<open>coveredelements\<close> attributes.
\<close>

definition clover_tree :: "string \<Rightarrow> string \<Rightarrow> node" where
  "clover_tree els cov =
     Node None None (Some
       [Node (Some ''coverage'') (Some [(''generated'', ''1762164000'')]) (Some
         [Node (Some ''project'') (Some [(''timestamp'', ''1762164000'')]) (Some
           [Node (Some ''file'') (Some [(''name'', ''index.js'')]) (Some []),
            Node (Some ''metrics'') (Some [(''elements'', els), (''coveredelements'', cov)])
              (Some [])])])])"

text \<open>
  A run on two reports, \<open>unit\<close> (46 of 50 elements covered, 45 of 50 in the baseline) and
  \<open>integration\<close> (39 of 50 covered, 40 of 50 in the baseline), whose glob matches two
  files. The history holds one entry, for \<open>unit\<close>. Two more report files have a metrics
  node with zero elements.
\<close>

definition example_files :: "file_conf list" where
  "example_files =
     [\<lparr>coverage_glob = ''unit/clover.xml'', summary = ''unit.json'', label = ''unit'',
       badge = Some ''unit.svg''\<rparr>,
      \<lparr>coverage_glob = ''integration/*.xml'', summary = ''integration.json'',
       label = ''integration'', badge = None\<rparr>]"

definition example_glob :: "string \<Rightarrow> failure + string list" where
  "example_glob p =
     (if p = ''integration/*.xml'' then Inr [''integration/clover.xml'', ''integration/old.xml'']
      else if p = ''unit/clover.xml'' \<or> p = ''empty/clover.xml'' \<or> p = ''zero/clover.xml''
      then Inr [p]
      else Inr [])"

definition example_readFileSync :: "string \<Rightarrow> failure + string" where
  "example_readFileSync p =
     (if p = ''unit/clover.xml'' then Inr ''unit report''
      else if p = ''integration/clover.xml'' then Inr ''integration report''
      else if p = ''integration/old.xml'' then Inr ''old report''
      else if p = ''empty/clover.xml'' then Inr ''empty report''
      else if p = ''zero/clover.xml'' then Inr ''zero report''
      else Inl (Thrown ''ENOENT''))"

definition example_xml2js :: "string \<Rightarrow> failure + node" where
  "example_xml2js t =
     (if t = ''unit report'' then Inr (clover_tree ''50'' ''46'')
      else if t = ''integration report'' then Inr (clover_tree ''50'' ''39'')
      else if t = ''old report'' then Inr (clover_tree ''10'' ''1'')
      else if t = ''empty report'' then Inr (clover_tree ''0'' ''0'')
      else if t = ''zero report'' then Inr (clover_tree ''0'' ''5'')
      else Inl (Thrown ''Invalid XML''))"

definition baseline_unit :: snapshot where
  "baseline_unit = \<lparr>total = Fin 50, covered = Fin 45, coverage = Fin 90\<rparr>"

definition baseline_integration :: snapshot where
  "baseline_integration = \<lparr>total = Fin 50, covered = Fin 40, coverage = Fin 80\<rparr>"

definition example_fetchBaseCoverage :: "string \<Rightarrow> failure + snapshot response" where
  "example_fetchBaseCoverage f =
     (if f = ''unit.json'' then Inr \<lparr>status = 200, json = Inr baseline_unit\<rparr>
      else if f = ''integration.json'' then Inr \<lparr>status = 200, json = Inr baseline_integration\<rparr>
      else Inr \<lparr>status = 404, json = Inl (Thrown ''Unexpected token'')\<rparr>)"

definition example_history :: ledger where
  "example_history =
     [(''unit'', [\<lparr>time = ''2026-10-01T08:00:00.000Z'', entry_coverage = Fin 90\<rparr>])]"

definition example_now :: "nat \<Rightarrow> string" where
  "example_now i = (if i = 0 then ''2026-11-03T10:00:00.000Z'' else ''2026-11-03T10:00:01.000Z'')"

definition example_env :: env where
  "example_env =
     \<lparr>ACTION = ''check'',
      COVERAGE_FILES = example_files,
      GITHUB_REF = ''refs/pull/7/merge'',
      numToString = example_numToString,
      encodeURIComponent = (\<lambda>s. s),
      glob = example_glob,
      readFileSync = example_readFileSync,
      xml2js = example_xml2js,
      fetchBaseCoverage = example_fetchBaseCoverage,
      fetchHistory = Inr \<lparr>status = 200, json = Inr example_history\<rparr>,
      fetchBadge = (\<lambda>url. Inr ''<svg/>''),
      now = example_now,
      clone = Inr ''repo-1762164000000'',
      push = (\<lambda>cwd. None)\<rparr>"


text \<open>The new snapshot of the report \<open>unit\<close>.\<close>

definition snapshot_92 :: snapshot where
  "snapshot_92 = \<lparr>total = Fin 50, covered = Fin 46, coverage = Fin 92\<rparr>"

text \<open>The new snapshot of the report \<open>integration\<close>, and the coverage map of the run.\<close>

definition snapshot_78 :: snapshot where
  "snapshot_78 = \<lparr>total = Fin 50, covered = Fin 39, coverage = Fin 78\<rparr>"

definition example_coverages :: "(string \<times> snapshot) list" where
  "example_coverages = [(''unit.json'', snapshot_92), (''integration.json'', snapshot_78)]"

text \<open>The same run when no baseline is stored yet, and when only \<open>unit\<close> has one.\<close>

definition no_baseline_env :: env where
  "no_baseline_env =
     example_env\<lparr>fetchBaseCoverage :=
       \<lambda>f. Inr \<lparr>status = 404, json = Inl (Thrown ''Unexpected token'')\<rparr>\<rparr>"

definition unit_baseline_env :: env where
  "unit_baseline_env =
     example_env\<lparr>fetchBaseCoverage :=
       \<lambda>f. if f = ''unit.json'' then Inr \<lparr>status = 200, json = Inr baseline_unit\<rparr>
           else Inr \<lparr>status = 404, json = Inl (Thrown ''Unexpected token'')\<rparr>\<rparr>"

text \<open>
  The same run when the history is answered 404, when it is answered 401, when its fetch
  is rejected, and when the two reports share the display label \<open>backend\<close>.
\<close>

definition no_history_env :: env where
  "no_history_env =
     example_env\<lparr>fetchHistory := Inr \<lparr>status = 404, json = Inl (Thrown ''Unexpected token'')\<rparr>\<rparr>"

definition unauthorized_env :: env where
  "unauthorized_env =
     example_env\<lparr>fetchHistory := Inr \<lparr>status = 401, json = Inl (Thrown ''Unexpected token'')\<rparr>\<rparr>"

definition offline_env :: env where
  "offline_env = example_env\<lparr>fetchHistory := Inl (Thrown ''ECONNRESET'')\<rparr>"

definition shared_label_env :: env where
  "shared_label_env =
     example_env\<lparr>COVERAGE_FILES :=
       [\<lparr>coverage_glob = ''unit/clover.xml'', summary = ''unit.json'', label = ''backend'',
         badge = None\<rparr>,
        \<lparr>coverage_glob = ''integration/*.xml'', summary = ''integration.json'',
         label = ''backend'', badge = None\<rparr>]\<rparr>"

text \<open>The entries of the examples.\<close>

definition entry_old :: history_entry where
  "entry_old = \<lparr>time = ''2026-10-01T08:00:00.000Z'', entry_coverage = Fin 90\<rparr>"

definition entry_unit :: history_entry where
  "entry_unit = \<lparr>time = ''2026-11-03T10:00:00.000Z'', entry_coverage = Fin 92\<rparr>"

definition entry_integration :: history_entry where
  "entry_integration = \<lparr>time = ''2026-11-03T10:00:01.000Z'', entry_coverage = Fin 78\<rparr>"

section \<open>What check mode compares\<close>

text \<open>
  The baseline of a key: the decoded body of the response, and \<open>None\<close> when the response
  is 404 (or when there is no decoded body at all).
\<close>

definition baseline :: "env \<Rightarrow> string \<Rightarrow> snapshot option" where
  "baseline env k =
     (case fetchBaseCoverage env k of
        Inl e \<Rightarrow> None
      | Inr r \<Rightarrow>
          (if status r = 404 then None
           else (case json r of Inl e \<Rightarrow> None | Inr b \<Rightarrow> Some b)))"

text \<open>The fetch of a baseline went well: it answered 404, or a body that decodes.\<close>

definition fetch_ok :: "env \<Rightarrow> string \<Rightarrow> bool" where
  "fetch_ok env k =
     (case fetchBaseCoverage env k of
        Inl e \<Rightarrow> False
      | Inr r \<Rightarrow> status r = 404 \<or> (case json r of Inl e \<Rightarrow> False | Inr b \<Rightarrow> True))"

definition configured :: "env \<Rightarrow> string \<Rightarrow> bool" where
  "configured env k =
     (case find (\<lambda>e. summary e = k) (COVERAGE_FILES env) of None \<Rightarrow> False | Some conf \<Rightarrow> True)"

definition label_of :: "env \<Rightarrow> string \<Rightarrow> string" where
  "label_of env k =
     (case find (\<lambda>e. summary e = k) (COVERAGE_FILES env) of None \<Rightarrow> [] | Some conf \<Rightarrow> label conf)"

text \<open>
  The messages of the reports, in the order of the reports: one for each report whose
  baseline is present.
\<close>

fun report_messages :: "env \<Rightarrow> (string \<times> snapshot) list \<Rightarrow> string list" where
  "report_messages env [] = []"
| "report_messages env ((k, c) # ps) =
     (case baseline env k of
        None \<Rightarrow> []
      | Some b \<Rightarrow>
          [''*'' @ label_of env k @ ''* '' @ newline @ newline @
           message (buildResultMessage env b c)]) @
     report_messages env ps"

fun present_baselines :: "env \<Rightarrow> (string \<times> snapshot) list \<Rightarrow> (string \<times> snapshot) list" where
  "present_baselines env [] = []"
| "present_baselines env ((k, c) # ps) =
     (case baseline env k of None \<Rightarrow> [] | Some b \<Rightarrow> [(k, b)]) @ present_baselines env ps"

fun report_failed :: "env \<Rightarrow> (string \<times> snapshot) list \<Rightarrow> bool" where
  "report_failed env [] = False"
| "report_failed env ((k, c) # ps) =
     ((case baseline env k of None \<Rightarrow> False | Some b \<Rightarrow> js_lt (coverage c) (coverage b)) \<or>
      report_failed env ps)"

text \<open>The global comparison: the sum of the present baselines against the sum of all reports.\<close>

definition global_verdict :: "env \<Rightarrow> (string \<times> snapshot) list \<Rightarrow> verdict" where
  "global_verdict env coverages =
     buildResultMessage env
       (sumCoverages (numToString env) (present_baselines env coverages))
       (sumCoverages (numToString env) coverages)"

section \<open>What update mode appends\<close>

text \<open>
  The entries that a run appends to the sequence of the label \<open>L\<close>: one for each report
  whose display label is \<open>L\<close>, in the order of the reports, the first report being the
  \<open>i\<close>-th iteration.
\<close>

fun appended :: "env \<Rightarrow> nat \<Rightarrow> (string \<times> snapshot) list \<Rightarrow> string \<Rightarrow> history_entry list" where
  "appended env i [] L = []"
| "appended env i ((k, c) # ps) L =
     (if label_of env k = L then [\<lparr>time = now env i, entry_coverage = coverage c\<rparr>] else []) @
     appended env (Suc i) ps L"

text \<open>
  The iteration for a report goes well: the report is configured, and its badge, when one
  is configured, is fetched.
\<close>

definition update_ok :: "env \<Rightarrow> string \<Rightarrow> snapshot \<Rightarrow> bool" where
  "update_ok env k c =
     (case find (\<lambda>e. summary e = k) (COVERAGE_FILES env) of
        None \<Rightarrow> False
      | Some conf \<Rightarrow>
          (case badge conf of
             None \<Rightarrow> True
           | Some b \<Rightarrow>
               b = [] \<or>
               (case fetchBadge env (getBadgeUrl env (coverage c) (label conf)) of
                  Inl e \<Rightarrow> False
                | Inr t \<Rightarrow> True)))"

fun is_history :: "content \<Rightarrow> bool" where
  "is_history (HistoryJson h) = True"
| "is_history _ = False"

text \<open>The sequence of a label in a ledger, empty when the label is absent.\<close>

definition entries_of :: "ledger \<Rightarrow> string \<Rightarrow> history_entry list" where
  "entries_of h L = (case map_of h L of None \<Rightarrow> [] | Some es \<Rightarrow> es)"

section \<open>Printing and parsing decimals\<close>

declare nat_string.simps [simp del]

lemma digit_cases: "d < 10 \<Longrightarrow> d \<in> {0::nat, 1, 2, 3, 4, 5, 6, 7, 8, 9}"
  by auto

lemma is_digit_digit_char: "d < 10 \<Longrightarrow> is_digit (digit_char d)"
  by (drule digit_cases) (auto simp: is_digit_def digit_char_def)

lemma digit_val_digit_char: "d < 10 \<Longrightarrow> digit_val (digit_char d) = d"
  by (drule digit_cases) (auto simp: digit_val_def digit_char_def)

lemma is_digit_not_special:
  "is_digit c \<Longrightarrow> \<not> is_white c \<and> c \<noteq> CHR ''-'' \<and> c \<noteq> CHR ''+'' \<and> c \<noteq> CHR ''.'' \<and> c \<noteq> CHR ''I''"
  by (auto simp: is_digit_def is_white_def)

lemma not_digit_dot: "\<not> is_digit CHR ''.''"
  by (simp add: is_digit_def)

lemma nat_string_digits: "\<forall>c \<in> set (nat_string n). is_digit c"
proof (induction n rule: nat_string.induct)
  case (1 n)
  show ?case
  proof (cases "n < 10")
    case True
    then show ?thesis by (simp add: nat_string.simps [of n] is_digit_digit_char)
  next
    case False
    with 1 show ?thesis by (simp add: nat_string.simps [of n] is_digit_digit_char)
  qed
qed

lemma nat_string_nonempty: "nat_string n \<noteq> []"
  by (simp add: nat_string.simps [of n])

lemma digits_val_snoc: "digits_val (s @ [c]) = 10 * digits_val s + digit_val c"
  by (simp add: digits_val_def)

lemma digits_val_nat_string: "digits_val (nat_string n) = n"
proof (induction n rule: nat_string.induct)
  case (1 n)
  show ?case
  proof (cases "n < 10")
    case True
    then show ?thesis
      by (simp add: nat_string.simps [of n] digits_val_def digit_val_digit_char)
  next
    case False
    with 1 show ?thesis
      by (simp add: nat_string.simps [of n] digits_val_snoc digit_val_digit_char)
  qed
qed

text \<open>A string of digits, a point and three digits parses to the number it denotes.\<close>

lemma sign_strip:
  assumes "\<forall>c \<in> set ip. is_digit c" "ip \<noteq> []"
  shows "dropWhile is_white (ip @ r) = ip @ r" "hd (ip @ r) \<noteq> CHR ''-''" "hd (ip @ r) \<noteq> CHR ''+''"
    "take 8 (ip @ r) \<noteq> ''Infinity''"
proof -
  obtain c cs where ip: "ip = c # cs" using assms(2) by (cases ip) auto
  then have c: "is_digit c" using assms(1) by simp
  show "dropWhile is_white (ip @ r) = ip @ r" using ip is_digit_not_special [OF c] by simp
  show "hd (ip @ r) \<noteq> CHR ''-''" using ip is_digit_not_special [OF c] by simp
  show "hd (ip @ r) \<noteq> CHR ''+''" using ip is_digit_not_special [OF c] by simp
  show "take 8 (ip @ r) \<noteq> ''Infinity''" using ip is_digit_not_special [OF c]
    by (cases "take 7 (cs @ r)") auto
qed

lemma frac3_digits: "f < 1000 \<Longrightarrow> \<forall>c \<in> set (frac3 f). is_digit c"
proof -
  assume f: "f < 1000"
  have "f < 10 * 100" using f by simp
  then have a: "f div 100 < 10" by (rule less_mult_imp_div_less)
  show ?thesis using a by (simp add: frac3_def is_digit_digit_char)
qed

lemma digits_val_frac3: "f < 1000 \<Longrightarrow> digits_val (frac3 f) = f"
proof -
  assume f: "f < 1000"
  have "f < 10 * 100" using f by simp
  then have a: "f div 100 < 10" by (rule less_mult_imp_div_less)
  have b: "f div 100 = f div 10 div 10" by (simp add: div_mult2_eq)
  have "digits_val (frac3 f) = 10 * (10 * (f div 100) + f div 10 mod 10) + f mod 10"
    using a by (simp add: frac3_def digits_val_def digit_val_digit_char)
  also have "\<dots> = 10 * (f div 10) + f mod 10" unfolding b by simp
  also have "\<dots> = f" by simp
  finally show ?thesis .
qed

lemma length_frac3: "length (frac3 f) = 3"
  by (simp add: frac3_def)



lemma parseFloat_plain:
  assumes "dropWhile is_white s = s" "s \<noteq> []" "hd s \<noteq> CHR ''-''" "hd s \<noteq> CHR ''+''"
    "take 8 s \<noteq> ''Infinity''" "takeWhile is_digit s = ip" "dropWhile is_digit s = CHR ''.'' # fp"
    "\<forall>c \<in> set fp. is_digit c" "ip \<noteq> []"
  shows "parseFloat s =
    signed_fin False (of_nat (digits_val ip) + of_nat (digits_val fp) / 10 ^ length fp)"
proof -
  have tf: "takeWhile is_digit fp = fp" using assms(8) by simp
  show ?thesis
    using assms unfolding parseFloat_def by (simp add: Let_def tf exponent_part_def scale10_def)
qed

lemma parseFloat_minus:
  assumes "take 8 s \<noteq> ''Infinity''" "takeWhile is_digit s = ip" "dropWhile is_digit s = CHR ''.'' # fp"
    "\<forall>c \<in> set fp. is_digit c" "ip \<noteq> []"
  shows "parseFloat (CHR ''-'' # s) =
    signed_fin True (of_nat (digits_val ip) + of_nat (digits_val fp) / 10 ^ length fp)"
proof -
  have w: "\<not> is_white CHR ''-''" by (simp add: is_white_def)
  have tf: "takeWhile is_digit fp = fp" using assms(4) by simp
  show ?thesis
    using assms w unfolding parseFloat_def by (simp add: Let_def tf exponent_part_def scale10_def)
qed

lemma digits_point:
  assumes ip: "\<forall>c \<in> set ip. is_digit c" 
  shows "takeWhile is_digit (ip @ CHR ''.'' # fp) = ip" "dropWhile is_digit (ip @ CHR ''.'' # fp) = CHR ''.'' # fp"
  using ip by (simp_all add: not_digit_dot)

lemma parse_unsigned:
  assumes ip: "\<forall>c \<in> set ip. is_digit c" "ip \<noteq> []" and fp: "\<forall>c \<in> set fp. is_digit c"
  shows "parseFloat (ip @ CHR ''.'' # fp) =
    signed_fin False (of_nat (digits_val ip) + of_nat (digits_val fp) / 10 ^ length fp)"
proof (rule parseFloat_plain)
  show "dropWhile is_white (ip @ CHR ''.'' # fp) = ip @ CHR ''.'' # fp" by (rule sign_strip(1) [OF ip])
  show "ip @ CHR ''.'' # fp \<noteq> []" by simp
  show "hd (ip @ CHR ''.'' # fp) \<noteq> CHR ''-''" by (rule sign_strip(2) [OF ip])
  show "hd (ip @ CHR ''.'' # fp) \<noteq> CHR ''+''" by (rule sign_strip(3) [OF ip])
  show "take 8 (ip @ CHR ''.'' # fp) \<noteq> ''Infinity''" by (rule sign_strip(4) [OF ip])
  show "takeWhile is_digit (ip @ CHR ''.'' # fp) = ip" by (rule digits_point(1) [OF ip(1)])
  show "dropWhile is_digit (ip @ CHR ''.'' # fp) = CHR ''.'' # fp" by (rule digits_point(2) [OF ip(1)])
  show "\<forall>c \<in> set fp. is_digit c" by (rule fp)
  show "ip \<noteq> []" by (rule ip(2))
qed

lemma parse_negative:
  assumes ip: "\<forall>c \<in> set ip. is_digit c" "ip \<noteq> []" and fp: "\<forall>c \<in> set fp. is_digit c"
  shows "parseFloat (CHR ''-'' # ip @ CHR ''.'' # fp) =
    signed_fin True (of_nat (digits_val ip) + of_nat (digits_val fp) / 10 ^ length fp)"
proof (rule parseFloat_minus)
  show "take 8 (ip @ CHR ''.'' # fp) \<noteq> ''Infinity''" by (rule sign_strip(4) [OF ip])
  show "takeWhile is_digit (ip @ CHR ''.'' # fp) = ip" by (rule digits_point(1) [OF ip(1)])
  show "dropWhile is_digit (ip @ CHR ''.'' # fp) = CHR ''.'' # fp" by (rule digits_point(2) [OF ip(1)])
  show "\<forall>c \<in> set fp. is_digit c" by (rule fp)
  show "ip \<noteq> []" by (rule ip(2))
qed


lemma fixed3_value:
  "of_nat (digits_val (nat_string (n div 1000))) + of_nat (digits_val (frac3 (n mod 1000))) / 10 ^ length (frac3 (n mod 1000))
     = (of_nat n / 1000 :: rat)"
proof -
  have m: "n mod 1000 < 1000" by simp
  have "(of_nat n :: rat) = of_nat (1000 * (n div 1000) + n mod 1000)" by simp
  also have "\<dots> = 1000 * of_nat (n div 1000) + of_nat (n mod 1000)"
    by (simp only: of_nat_add of_nat_mult of_nat_numeral)
  finally have "(of_nat n :: rat) / 1000 = of_nat (n div 1000) + of_nat (n mod 1000) / 1000"
    by (simp add: add_divide_distrib)
  then show ?thesis
    by (simp only: digits_val_nat_string digits_val_frac3 [OF m] length_frac3) simp
qed


lemma parseFloat_names:
  "parseFloat ''NaN'' = NaN" "parseFloat ''Infinity'' = PInf" "parseFloat ''-Infinity'' = NInf"
  by (simp_all add: parseFloat_def is_white_def is_digit_def signed_inf_def)

lemma parseFloat_fixed3:
  "parseFloat (fixed3_digits m) = signed_fin False (of_nat (nat \<lfloor>m * 1000 + 1 / 2\<rfloor>) / 1000)"
proof -
  define n where "n = nat \<lfloor>m * 1000 + 1 / 2\<rfloor>"
  have m: "n mod 1000 < 1000" by simp
  have "parseFloat (nat_string (n div 1000) @ CHR ''.'' # frac3 (n mod 1000)) =
      signed_fin False (of_nat n / 1000)"
    by (simp only: parse_unsigned [OF nat_string_digits nat_string_nonempty frac3_digits [OF m]]
        fixed3_value)
  then show ?thesis by (simp add: fixed3_digits_def Let_def n_def)
qed

lemma parseFloat_neg_fixed3:
  "parseFloat (CHR ''-'' # fixed3_digits m) =
     signed_fin True (of_nat (nat \<lfloor>m * 1000 + 1 / 2\<rfloor>) / 1000)"
proof -
  define n where "n = nat \<lfloor>m * 1000 + 1 / 2\<rfloor>"
  have m: "n mod 1000 < 1000" by simp
  have "parseFloat (CHR ''-'' # nat_string (n div 1000) @ CHR ''.'' # frac3 (n mod 1000)) =
      signed_fin True (of_nat n / 1000)"
    by (simp only: parse_negative [OF nat_string_digits nat_string_nonempty frac3_digits [OF m]]
        fixed3_value)
  then show ?thesis by (simp add: fixed3_digits_def Let_def n_def)
qed


section \<open>The percentage\<close>

lemma round3_nat: "0 \<le> m \<Longrightarrow> of_nat (nat \<lfloor>m * 1000 + 1 / 2\<rfloor>) / 1000 = round3 m"
proof -
  assume "0 \<le> m"
  then have "0 \<le> m * 1000 + 1 / 2" by simp
  then have "0 \<le> \<lfloor>m * 1000 + 1 / 2\<rfloor>" by simp
  then show ?thesis by (simp add: round3_def)
qed

lemma parseFloat_toFixed3_Fin:
  assumes "\<bar>r\<bar> < 10 ^ 21"
  shows "parseFloat (toFixed3 ts (Fin r)) = signed_fin (r < 0) (round3 \<bar>r\<bar>)"
proof (cases "r < 0")
  case True
  have tf: "toFixed3 ts (Fin r) = CHR ''-'' # fixed3_digits \<bar>r\<bar>"
    using True assms by simp
  show ?thesis
    unfolding tf parseFloat_neg_fixed3 round3_nat [OF abs_ge_zero] using True by simp
next
  case False
  have tf: "toFixed3 ts (Fin r) = fixed3_digits \<bar>r\<bar>"
    using False assms by simp
  show ?thesis
    unfolding tf parseFloat_fixed3 round3_nat [OF abs_ge_zero] using False by simp
qed

lemma parseFloat_toFixed3_special:
  "parseFloat (toFixed3 ts NaN) = NaN" "parseFloat (toFixed3 ts PInf) = PInf"
  "parseFloat (toFixed3 ts NInf) = NInf" "parseFloat (toFixed3 ts NZero) = Fin 0"
  by (simp_all add: parseFloat_names parseFloat_fixed3 signed_fin_def signed_zero_def)

lemma round3_examples: "round3 92 = 92" "round3 (200/7) = 28.571" "round3 (1/2000) = 0.001"
  by (simp_all add: round3_def floor_eq_iff)

lemma percentage_nonneg:
  assumes "0 \<le> c" "0 < t" "100 * c / t < 10 ^ 21"
  shows "percentage ts (Fin c) (Fin t) = Fin (round3 (100 * c / t))"
proof -
  have m: "js_mul (Fin 100) (Fin c) = Fin (100 * c)"
    using assms(1) by (auto simp: js_mul_def signed_fin_def signed_zero_def)
  have d: "js_div (Fin (100 * c)) (Fin t) = Fin (100 * c / t)"
    using assms(1,2) by (auto simp: js_div_def signed_fin_def signed_zero_def abs_if)
  have nn: "0 \<le> 100 * c / t" using assms(1,2) by simp
  then have a: "\<bar>100 * c / t\<bar> < 10 ^ 21" using assms(3) by simp
  have r0: "0 \<le> round3 (100 * c / t)" using nn by (simp add: round3_def)
  show ?thesis
    unfolding percentage_def m d parseFloat_toFixed3_Fin [OF a]
    using nn r0 by (auto simp: signed_fin_def signed_zero_def abs_if)
qed

lemma percentage_zero_total:
  assumes "is_zero t"
  shows "percentage ts c t =
    (if c = NaN \<or> is_zero c then NaN else signed_inf (is_neg c \<noteq> is_neg t))"
proof -
  have t: "t = Fin 0 \<or> t = NZero" using assms by (cases t) auto
  have "js_div (js_mul (Fin 100) c) t =
      (if c = NaN \<or> is_zero c then NaN else signed_inf (is_neg c \<noteq> is_neg t))"
    using t by (cases c) (auto simp: js_mul_def js_div_def signed_fin_def signed_zero_def signed_inf_def)
  then show ?thesis
    by (auto simp: percentage_def signed_inf_def parseFloat_names)
qed

section \<open>The example run: parsing\<close>


lemma parseInt10_examples:
  "parseInt10 ''50'' = Fin 50" "parseInt10 ''46'' = Fin 46" "parseInt10 ''39'' = Fin 39"
  "parseInt10 ''0'' = Fin 0" "parseInt10 ''5'' = Fin 5" "parseInt10 ''-0'' = NZero"
  by (simp_all add: parseInt10_def is_white_def is_digit_def digits_val_def digit_val_def
      signed_fin_def signed_zero_def)

lemma metrics_clover_tree:
  "retrieveGlobalMetricsElement (clover_tree els cov) =
     Inr (Node (Some ''metrics'') (Some [(''elements'', els), (''coveredelements'', cov)]) (Some []))"
  by (simp add: retrieveGlobalMetricsElement_def findNode_def clover_tree_def)

lemma percentage_examples:
  "percentage ts (Fin 46) (Fin 50) = Fin 92" "percentage ts (Fin 39) (Fin 50) = Fin 78"
  "percentage ts (Fin 85) (Fin 100) = Fin 85"
  using percentage_nonneg [of 46 50 ts] percentage_nonneg [of 39 50 ts]
    percentage_nonneg [of 85 100 ts]
  by (simp_all add: round3_def floor_eq_iff)

lemma parseCoverage_example_unit:
  "parseCoverage example_env ''unit/clover.xml'' = Inr \<lparr>total = Fin 50, covered = Fin 46, coverage = Fin 92\<rparr>"
  by (simp add: parseCoverage_def example_env_def example_glob_def example_readFileSync_def
      example_xml2js_def metrics_clover_tree parseIntAttr_def parseInt10_examples percentage_examples)

lemma parseCoverage_example_integration:
  "parseCoverage example_env ''integration/*.xml'' = Inr \<lparr>total = Fin 50, covered = Fin 39, coverage = Fin 78\<rparr>"
  by (simp add: parseCoverage_def example_env_def example_glob_def example_readFileSync_def
      example_xml2js_def metrics_clover_tree parseIntAttr_def parseInt10_examples percentage_examples)


section \<open>Sums\<close>




lemma sumCoverages_loop_ignores_coverage:
  "sumCoverages_loop out (map (\<lambda>s. s\<lparr>coverage := g s\<rparr>) ss) = sumCoverages_loop out ss"
proof (induction ss arbitrary: out)
  case Nil
  then show ?case by simp
next
  case (Cons s ss)
  then show ?case by (cases out) simp
qed

section \<open>The rendering of a delta\<close>

lemma fixed3_digits_hd: "is_digit (hd (fixed3_digits m))"
proof -
  obtain c cs where "nat_string (nat \<lfloor>m * 1000 + 1 / 2\<rfloor> div 1000) = c # cs"
    using nat_string_nonempty by (cases "nat_string (nat \<lfloor>m * 1000 + 1 / 2\<rfloor> div 1000)") auto
  moreover have "\<forall>c \<in> set (nat_string (nat \<lfloor>m * 1000 + 1 / 2\<rfloor> div 1000)). is_digit c"
    by (rule nat_string_digits)
  ultimately show ?thesis by (simp add: fixed3_digits_def Let_def)
qed

lemma round3_close: "\<bar>round3 m - m\<bar> \<le> 1 / 2000"
proof -
  define x where "x = m * 1000 + 1 / 2"
  define e where "e = of_int \<lfloor>x\<rfloor> - x + 1 / 2"
  have a: "of_int \<lfloor>x\<rfloor> \<le> x" by simp
  have b: "x < of_int \<lfloor>x\<rfloor> + 1" by linarith
  have e: "\<bar>e\<bar> \<le> 1 / 2" unfolding e_def using a b by linarith
  have "round3 m - m = e / 1000"
    unfolding round3_def x_def [symmetric] e_def by (simp add: x_def field_simps)
  then have "\<bar>round3 m - m\<bar> = \<bar>e / 1000\<bar>" by (rule arg_cong)
  also have "\<dots> = \<bar>e\<bar> / 1000" by (simp only: abs_divide abs_numeral)
  finally have "\<bar>round3 m - m\<bar> = \<bar>e\<bar> / 1000" .
  then show ?thesis using e by linarith
qed

lemma floor_thousand: "\<lfloor>rat_of_nat n * 1000 + 1 / 2\<rfloor> = int n * 1000"
proof (rule floor_unique)
  show "of_int (int n * 1000) \<le> rat_of_nat n * 1000 + 1 / 2" by simp
  show "rat_of_nat n * 1000 + 1 / 2 < of_int (int n * 1000) + 1" by simp
qed

lemma fixed3_digits_of_nat: "fixed3_digits (of_nat n) = nat_string n @ ''.000''"
proof -
  have "nat \<lfloor>rat_of_nat n * 1000 + 1 / 2\<rfloor> = n * 1000"
    by (simp add: floor_thousand)
  then show ?thesis
    by (simp add: fixed3_digits_def frac3_def digit_char_def)
qed

lemma js_lt_zero_hd: "js_lt d (Fin 0) \<Longrightarrow> hd (toFixed3 ts d) = CHR ''-''"
  by (cases d) simp_all

lemma toFixed3_positive: "0 < r \<Longrightarrow> r < 10 ^ 21 \<Longrightarrow> toFixed3 ts (Fin r) = fixed3_digits r"
  by simp

lemma buildDeltaMessage_delta_line:
  "buildDeltaMessage env oldCoverage newCoverage =
     join newline
       ['''',
        ''| Measure | Main branch | '' @ GITHUB_REF env @ '' |'',
        ''| --- | --- | --- |'',
        ''| Coverage | '' @ numToString env (coverage oldCoverage) @ ''% | '' @
          numToString env (coverage newCoverage) @ ''% |'',
        ''| Total lines | '' @ numToString env (total oldCoverage) @ '' | '' @
          numToString env (total newCoverage) @ '' |'',
        ''| Covered lines | '' @ numToString env (covered oldCoverage) @ '' | '' @
          numToString env (covered newCoverage) @ '' |'',
        ''''] @
     newline @ delta_sign @ '' '' @
     toFixed3 (numToString env) (js_sub (coverage newCoverage) (coverage oldCoverage)) @ newline"
  by (simp add: buildDeltaMessage_def)

lemma nat_string_examples:
  "nat_string 0 = ''0''" "nat_string 1 = ''1''" "nat_string (Suc 0) = ''1''" "nat_string 2 = ''2''" "nat_string 50 = ''50''" "nat_string 45 = ''45''"
  "nat_string 46 = ''46''" "nat_string 90 = ''90''" "nat_string 92 = ''92''"
  "nat_string 100 = ''100''" "nat_string 80 = ''80''" "nat_string 79 = ''79''"
  by (simp_all add: nat_string.simps digit_char_def)

lemma toFixed3_examples:
  "toFixed3 ts (Fin 2) = ''2.000''" "toFixed3 ts (Fin (- 1)) = ''-1.000''"
  "toFixed3 ts (Fin (- 2)) = ''-2.000''" "toFixed3 ts (Fin 0) = ''0.000''"
  using fixed3_digits_of_nat [of 2] fixed3_digits_of_nat [of 1] fixed3_digits_of_nat [of 0]
  by (simp_all add: nat_string_examples)

section \<open>The loop of check\<close>

lemma obj_set_fresh: "k \<notin> fst ` set ps \<Longrightarrow> obj_set ps k v = ps @ [(k, v)]"
  by (induction ps) auto

lemma map_of_obj_set: "map_of (obj_set ps k v) = (map_of ps)(k \<mapsto> v)"
  by (induction ps) (auto simp: fun_eq_iff)

lemma check_step_result:
  assumes "map_of coverages k = Some c" and "fetch_ok env k" and "configured env k"
  shows "check_step env coverages st k =
    Inr (case baseline env k of
           None \<Rightarrow> st
         | Some b \<Rightarrow>
             \<lparr>baseCoverages = obj_set (baseCoverages st) k b,
              messages = messages st @
                [''*'' @ label_of env k @ ''* '' @ newline @ newline @
                 message (buildResultMessage env b c)],
              failed = (failed st \<or> js_lt (coverage c) (coverage b))\<rparr>)"
  using assms
  by (auto simp: check_step_def baseline_def fetch_ok_def configured_def label_of_def Let_def
      buildResultMessage_def
      split: sum.splits option.splits)

lemma check_loop_pairs:
  assumes "distinct (map fst coverages)" and "set ps \<subseteq> set coverages"
    and "distinct (map fst ps)"
    and "\<forall>(k, c) \<in> set ps. fetch_ok env k \<and> configured env k"
    and "fst ` set (baseCoverages st) \<inter> fst ` set ps = {}"
  shows "check_loop env coverages st (map fst ps) =
    Inr \<lparr>baseCoverages = baseCoverages st @ present_baselines env ps,
         messages = messages st @ report_messages env ps,
         failed = (failed st \<or> report_failed env ps)\<rparr>"
  using assms(2-5)
proof (induction ps arbitrary: st)
  case Nil
  then show ?case by simp
next
  case (Cons p ps)
  obtain k c where p: "p = (k, c)" by (cases p)
  have look: "map_of coverages k = Some c"
    using Cons.prems(1) assms(1) p by simp
  have ok: "fetch_ok env k" "configured env k" using Cons.prems(3) p by auto
  have fresh: "k \<notin> fst ` set (baseCoverages st)" using Cons.prems(4) p by auto
  have knew: "k \<notin> fst ` set ps" using Cons.prems(2) p by auto
  show ?case
  proof (cases "baseline env k")
    case None
    have step: "check_step env coverages st k = Inr st"
      using check_step_result [OF look ok] None by simp
    have disj: "fst ` set (baseCoverages st) \<inter> fst ` set ps = {}"
      using Cons.prems(4) by auto
    have "check_loop env coverages st (map fst ps) =
        Inr \<lparr>baseCoverages = baseCoverages st @ present_baselines env ps,
             messages = messages st @ report_messages env ps,
             failed = (failed st \<or> report_failed env ps)\<rparr>"
      using Cons.IH [of st] Cons.prems disj by auto
    then show ?thesis using step None p by simp
  next
    case (Some b)
    define st' where "st' =
        \<lparr>baseCoverages = baseCoverages st @ [(k, b)],
         messages = messages st @
           [''*'' @ label_of env k @ ''* '' @ newline @ newline @
            message (buildResultMessage env b c)],
         failed = (failed st \<or> js_lt (coverage c) (coverage b))\<rparr>"
    have step: "check_step env coverages st k = Inr st'"
      using check_step_result [OF look ok] Some obj_set_fresh [OF fresh] by (simp add: st'_def)
    have disj: "fst ` set (baseCoverages st') \<inter> fst ` set ps = {}"
      using Cons.prems(4) knew by (auto simp: st'_def)
    have "check_loop env coverages st' (map fst ps) =
        Inr \<lparr>baseCoverages = baseCoverages st' @ present_baselines env ps,
             messages = messages st' @ report_messages env ps,
             failed = (failed st' \<or> report_failed env ps)\<rparr>"
      using Cons.IH [of st'] Cons.prems disj by auto
    then show ?thesis using step Some p by (simp add: st'_def)
  qed
qed

lemma check_result:
  assumes "distinct (map fst coverages)"
    and "\<forall>(k, c) \<in> set coverages. fetch_ok env k \<and> configured env k"
  shows "check env coverages =
    Inr (if length coverages > 1
         then \<lparr>setFailed = (report_failed env coverages \<or> setFailed (global_verdict env coverages)),
               message = join divider
                 (report_messages env coverages @
                  [''*Global* '' @ newline @ newline @ message (global_verdict env coverages)])\<rparr>
         else \<lparr>setFailed = report_failed env coverages,
               message = join divider (report_messages env coverages)\<rparr>)"
proof -
  have loop: "check_loop env coverages \<lparr>baseCoverages = [], messages = [], failed = False\<rparr>
        (map fst coverages) =
      Inr \<lparr>baseCoverages = present_baselines env coverages,
           messages = report_messages env coverages,
           failed = report_failed env coverages\<rparr>"
    using check_loop_pairs [OF assms(1) subset_refl assms(1) assms(2),
        of "\<lparr>baseCoverages = [], messages = [], failed = False\<rparr>"]
    by simp
  show ?thesis
    by (simp add: check_def loop global_verdict_def Let_def)
qed


lemma setFailed_buildResultMessage:
  "setFailed (buildResultMessage env oldCoverage newCoverage) =
     js_lt (coverage newCoverage) (coverage oldCoverage)"
  by (simp add: buildResultMessage_def)

lemma baseline_absent:
  "fetchBaseCoverage env k = Inr r \<Longrightarrow> status r = 404 \<Longrightarrow> baseline env k = None"
  by (simp add: baseline_def)

lemma present_baselines_keys:
  "map fst (present_baselines env ps) = filter (\<lambda>k. baseline env k \<noteq> None) (map fst ps)"
  by (induction ps) (auto split: option.splits)

lemma present_baselines_values:
  "map snd (present_baselines env ps) =
     List.map_filter (baseline env) (map fst ps)"
  by (induction ps) (auto split: option.splits)

lemma sumCoverages_empty: "sumCoverages ts [] = \<lparr>total = Fin 0, covered = Fin 0, coverage = NaN\<rparr>"
  by (simp add: sumCoverages_def percentage_zero_total)

lemma example_configured:
  "configured example_env ''unit.json''" "configured example_env ''integration.json''"
  "label_of example_env ''unit.json'' = ''unit''"
  "label_of example_env ''integration.json'' = ''integration''"
  by (simp_all add: configured_def label_of_def example_env_def example_files_def)

lemma example_baselines:
  "baseline example_env ''unit.json'' = Some baseline_unit"
  "baseline example_env ''integration.json'' = Some baseline_integration"
  "fetch_ok example_env ''unit.json''" "fetch_ok example_env ''integration.json''"
  by (simp_all add: baseline_def fetch_ok_def example_env_def example_fetchBaseCoverage_def)

lemma percentage_more_examples:
  "percentage ts (Fin 45) (Fin 50) = Fin 90" "percentage ts (Fin 40) (Fin 50) = Fin 80"
  using percentage_nonneg [of 45 50 ts] percentage_nonneg [of 40 50 ts]
  by (simp_all add: round3_def floor_eq_iff)

lemma example_sums:
  "sumCoverages ts example_coverages = \<lparr>total = Fin 100, covered = Fin 85, coverage = Fin 85\<rparr>"
  "sumCoverages ts [(''unit.json'', baseline_unit), (''integration.json'', baseline_integration)] =
     \<lparr>total = Fin 100, covered = Fin 85, coverage = Fin 85\<rparr>"
  "sumCoverages ts [(''unit.json'', baseline_unit)] =
     \<lparr>total = Fin 50, covered = Fin 45, coverage = Fin 90\<rparr>"
  by (simp_all add: sumCoverages_def example_coverages_def snapshot_92_def snapshot_78_def
      baseline_unit_def baseline_integration_def percentage_examples percentage_more_examples)

lemma no_baseline_facts:
  "baseline no_baseline_env k = None" "fetch_ok no_baseline_env k"
  "configured no_baseline_env ''unit.json''" "configured no_baseline_env ''integration.json''"
  "numToString no_baseline_env = example_numToString"
  by (simp_all add: baseline_def fetch_ok_def configured_def no_baseline_env_def example_env_def
      example_files_def)

lemma unit_baseline_facts:
  "baseline unit_baseline_env ''unit.json'' = Some baseline_unit"
  "baseline unit_baseline_env ''integration.json'' = None"
  "fetch_ok unit_baseline_env ''unit.json''" "fetch_ok unit_baseline_env ''integration.json''"
  "configured unit_baseline_env ''unit.json''" "configured unit_baseline_env ''integration.json''"
  "label_of unit_baseline_env ''unit.json'' = ''unit''"
  "numToString unit_baseline_env = example_numToString"
  by (simp_all add: baseline_def fetch_ok_def configured_def label_of_def unit_baseline_env_def
      example_env_def example_files_def)

lemma js_lt_NaN: "\<not> js_lt a NaN"
  by (cases a) simp_all

section \<open>The loop of update\<close>

lemma entries_of_obj_set:
  "entries_of (obj_set h k v) L = (if L = k then v else entries_of h L)"
  by (simp add: entries_of_def map_of_obj_set)

lemma update_step_result:
  assumes "map_of coverages k = Some c" and "update_ok env k c"
  shows "\<exists>ws. update_step env coverages workingDir st i k =
      Inr \<lparr>history = obj_set (history st) (label_of env k)
             (entries_of (history st) (label_of env k) @
              [\<lparr>time = now env i, entry_coverage = coverage c\<rparr>]),
           writes = writes st @ ws\<rparr> \<and>
    (\<forall>w \<in> set ws. \<not> is_history (snd w))"
  using assms
  by (auto simp: update_step_def update_ok_def label_of_def entries_of_def Let_def
      split: option.splits sum.splits)

lemma update_loop_pairs:
  assumes "distinct (map fst coverages)" and "set ps \<subseteq> set coverages"
    and "\<forall>(k, c) \<in> set ps. update_ok env k c"
  shows "\<exists>st'. update_loop env coverages workingDir st i (map fst ps) = Inr st' \<and>
    (\<forall>L. entries_of (history st') L = entries_of (history st) L @ appended env i ps L) \<and>
    (\<forall>L. map_of (history st') L = None \<longleftrightarrow>
       map_of (history st) L = None \<and> appended env i ps L = []) \<and>
    (\<exists>ws. writes st' = writes st @ ws \<and> (\<forall>w \<in> set ws. \<not> is_history (snd w)))"
  using assms(2,3)
proof (induction ps arbitrary: st i)
  case Nil
  then show ?case by simp
next
  case (Cons p ps)
  obtain k c where p: "p = (k, c)" by (cases p)
  have look: "map_of coverages k = Some c"
    using Cons.prems(1) assms(1) p by simp
  have ok: "update_ok env k c" using Cons.prems(2) p by simp
  define e where "e = \<lparr>time = now env i, entry_coverage = coverage c\<rparr>"
  obtain ws1 where step: "update_step env coverages workingDir st i k =
      Inr \<lparr>history = obj_set (history st) (label_of env k)
             (entries_of (history st) (label_of env k) @ [e]),
           writes = writes st @ ws1\<rparr>"
    and ws1: "\<forall>w \<in> set ws1. \<not> is_history (snd w)"
    using update_step_result [OF look ok, of workingDir st i] unfolding e_def by blast
  define st1 where "st1 =
      \<lparr>history = obj_set (history st) (label_of env k)
         (entries_of (history st) (label_of env k) @ [e]),
       writes = writes st @ ws1\<rparr>"
  have sub: "set ps \<subseteq> set coverages" using Cons.prems(1) by simp
  have oks: "\<forall>(k, c) \<in> set ps. update_ok env k c" using Cons.prems(2) by simp
  obtain st' ws2 where loop: "update_loop env coverages workingDir st1 (Suc i) (map fst ps) = Inr st'"
    and ent: "\<forall>L. entries_of (history st') L = entries_of (history st1) L @ appended env (Suc i) ps L"
    and dom: "\<forall>L. map_of (history st') L = None \<longleftrightarrow>
       map_of (history st1) L = None \<and> appended env (Suc i) ps L = []"
    and ws2: "writes st' = writes st1 @ ws2" "\<forall>w \<in> set ws2. \<not> is_history (snd w)"
    using Cons.IH [OF sub oks, of st1 "Suc i"] by blast
  have run: "update_loop env coverages workingDir st i (map fst (p # ps)) = Inr st'"
    using step loop by (simp add: p st1_def)
  have ent': "\<forall>L. entries_of (history st') L = entries_of (history st) L @ appended env i (p # ps) L"
    using ent by (simp add: p st1_def entries_of_obj_set e_def)
  have dom': "\<forall>L. map_of (history st') L = None \<longleftrightarrow>
       map_of (history st) L = None \<and> appended env i (p # ps) L = []"
    using dom by (simp add: p st1_def map_of_obj_set)
  have wr: "writes st' = writes st @ (ws1 @ ws2)" "\<forall>w \<in> set (ws1 @ ws2). \<not> is_history (snd w)"
    using ws1 ws2 by (auto simp: st1_def)
  show ?case using run ent' dom' wr by blast
qed

lemma length_appended:
  "length (appended env i ps L) = length (filter (\<lambda>(k, c). label_of env k = L) ps)"
  by (induction ps arbitrary: i) auto

lemma update_result:
  assumes "distinct (map fst coverages)"
    and "\<forall>(k, c) \<in> set coverages. update_ok env k c"
    and "clone env = Inr workingDir" and "loadHistory env = Inr h"
    and "push env workingDir = None"
  shows "\<exists>ws h'. update env coverages =
      Inr (ws @ [(workingDir @ ''/'' @ HISTORY_FILENAME, HistoryJson h')]) \<and>
    (\<forall>w \<in> set ws. \<not> is_history (snd w)) \<and>
    (\<forall>L. entries_of h' L = entries_of h L @ appended env 0 coverages L) \<and>
    (\<forall>L. map_of h' L = None \<longleftrightarrow> map_of h L = None \<and> appended env 0 coverages L = [])"
proof -
  obtain st' ws where loop: "update_loop env coverages workingDir \<lparr>history = h, writes = []\<rparr> 0
        (map fst coverages) = Inr st'"
    and ent: "\<forall>L. entries_of (history st') L = entries_of h L @ appended env 0 coverages L"
    and dom: "\<forall>L. map_of (history st') L = None \<longleftrightarrow>
       map_of h L = None \<and> appended env 0 coverages L = []"
    and ws: "writes st' = ws" "\<forall>w \<in> set ws. \<not> is_history (snd w)"
    using update_loop_pairs [OF assms(1) subset_refl assms(2),
        of workingDir "\<lparr>history = h, writes = []\<rparr>" 0]
    by auto
  have "update env coverages =
      Inr (ws @ [(workingDir @ ''/'' @ HISTORY_FILENAME, HistoryJson (history st'))])"
    using assms(3-5) loop ws(1) by (simp add: update_def Let_def)
  then show ?thesis using ent dom ws(2) by blast
qed

lemma example_update_ok:
  "update_ok example_env ''unit.json'' c" "update_ok example_env ''integration.json'' c"
  "label_of example_env ''unit.json'' = ''unit''"
  "label_of example_env ''integration.json'' = ''integration''"
  "clone example_env = Inr ''repo-1762164000000''"
  "loadHistory example_env = Inr example_history"
  "push example_env ''repo-1762164000000'' = None"
  "now example_env 0 = ''2026-11-03T10:00:00.000Z''"
  "now example_env (Suc 0) = ''2026-11-03T10:00:01.000Z''"
  by (simp_all add: update_ok_def label_of_def loadHistory_def example_env_def example_files_def
      example_now_def)

lemma update_example_run:
  "update example_env example_coverages =
     Inr [(''repo-1762164000000/unit.json'', SnapshotJson snapshot_92),
          (''repo-1762164000000/unit.svg'', BadgeText ''<svg/>''),
          (''repo-1762164000000/integration.json'', SnapshotJson snapshot_78),
          (''repo-1762164000000/coverage-history.json'',
           HistoryJson [(''unit'', [entry_old, entry_unit]),
                        (''integration'', [entry_integration])])]"
  by (simp add: update_def loadHistory_def update_step_def example_env_def example_files_def
      example_coverages_def example_history_def example_now_def HISTORY_FILENAME_def
      entry_old_def entry_unit_def entry_integration_def snapshot_92_def snapshot_78_def)

section \<open>The coverage map of a run\<close>

lemma obj_set_keys:
  "map fst (obj_set ps k v) = (if k \<in> fst ` set ps then map fst ps else map fst ps @ [k])"
proof (induction ps)
  case Nil
  then show ?case by simp
next
  case (Cons p ps)
  obtain k' v' where p: "p = (k', v')" by (cases p)
  show ?case
  proof (cases "k' = k")
    case True
    then show ?thesis using p by simp
  next
    case False
    then show ?thesis using p Cons.IH by (simp add: image_iff)
  qed
qed

lemma configured_iff: "configured env k \<longleftrightarrow> (\<exists>e \<in> set (COVERAGE_FILES env). summary e = k)"
proof -
  have "configured env k \<longleftrightarrow> find (\<lambda>e. summary e = k) (COVERAGE_FILES env) \<noteq> None"
    by (simp add: configured_def split: option.splits)
  then show ?thesis by (simp add: find_None_iff) blast
qed

lemma parseCoverages_loop_keys:
  assumes "parseCoverages_loop env reports files = Inr coverages"
    and "distinct (map fst reports)" and "\<forall>k \<in> fst ` set reports. configured env k"
    and "set files \<subseteq> set (COVERAGE_FILES env)"
  shows "distinct (map fst coverages) \<and> (\<forall>k \<in> fst ` set coverages. configured env k)"
  using assms
proof (induction files arbitrary: reports)
  case Nil
  then show ?case by simp
next
  case (Cons f fs)
  obtain s where s: "parseCoverage env (coverage_glob f) = Inr s"
    and loop: "parseCoverages_loop env (obj_set reports (summary f) s) fs = Inr coverages"
    using Cons.prems(1) by (auto split: sum.splits)
  have c: "configured env (summary f)"
    using Cons.prems(4) by (auto simp: configured_iff)
  have d: "distinct (map fst (obj_set reports (summary f) s))"
    using Cons.prems(2) by (simp add: obj_set_keys)
  have k: "\<forall>k \<in> fst ` set (obj_set reports (summary f) s). configured env k"
  proof
    fix k assume "k \<in> fst ` set (obj_set reports (summary f) s)"
    then have "k \<in> set (map fst (obj_set reports (summary f) s))" by simp
    then have "k \<in> fst ` set reports \<or> k = summary f"
      unfolding obj_set_keys by (auto split: if_splits)
    then show "configured env k" using c Cons.prems(3) by auto
  qed
  have sub: "set fs \<subseteq> set (COVERAGE_FILES env)" using Cons.prems(4) by simp
  show ?case by (rule Cons.IH [OF loop d k sub])
qed

lemma parseCoverages_keys:
  assumes "parseCoverages env = Inr coverages"
  shows "distinct (map fst coverages) \<and> (\<forall>(k, c) \<in> set coverages. configured env k)"
proof -
  have "distinct (map fst coverages) \<and> (\<forall>k \<in> fst ` set coverages. configured env k)"
    using parseCoverages_loop_keys [of env "[]" "COVERAGE_FILES env" coverages] assms
    by (simp add: parseCoverages_def)
  then show ?thesis by auto
qed

lemma parseCoverages_example: "parseCoverages example_env = Inr example_coverages"
proof -
  have f: "COVERAGE_FILES example_env = example_files" by (simp add: example_env_def)
  show ?thesis
    unfolding parseCoverages_def f example_files_def
    by (simp add: parseCoverage_example_unit parseCoverage_example_integration
        example_coverages_def snapshot_92_def snapshot_78_def)
qed

section \<open>The run in check mode\<close>

lemma action_check_result:
  assumes "parseCoverages env = Inr coverages" and "ACTION env \<noteq> ''update''"
    and "\<forall>(k, c) \<in> set coverages. fetch_ok env k"
  shows "action env =
    Inr (Checked
      (if length coverages > 1
       then \<lparr>setFailed = (report_failed env coverages \<or> setFailed (global_verdict env coverages)),
             message = join divider
               (report_messages env coverages @
                [''*Global* '' @ newline @ newline @ message (global_verdict env coverages)])\<rparr>
       else \<lparr>setFailed = report_failed env coverages,
             message = join divider (report_messages env coverages)\<rparr>))"
proof -
  have d: "distinct (map fst coverages)"
    and c: "\<forall>(k, c) \<in> set coverages. configured env k"
    using parseCoverages_keys [OF assms(1)] by auto
  have ok: "\<forall>(k, c) \<in> set coverages. fetch_ok env k \<and> configured env k"
    using assms(3) c by auto
  show ?thesis
    using assms(1,2) by (simp add: action_def check_result [OF d ok])
qed

lemma action_example:
  "action example_env =
     Inr (Checked
       \<lparr>setFailed = True,
        message =
          ''*unit* '' @ newline @ newline @
          message (buildResultMessage example_env baseline_unit snapshot_92) @
          divider @
          ''*integration* '' @ newline @ newline @
          message (buildResultMessage example_env baseline_integration snapshot_78) @
          divider @
          ''*Global* '' @ newline @ newline @
          message (buildResultMessage example_env
            \<lparr>total = Fin 100, covered = Fin 85, coverage = Fin 85\<rparr>
            \<lparr>total = Fin 100, covered = Fin 85, coverage = Fin 85\<rparr>)\<rparr>)"
proof -
  have a: "ACTION example_env \<noteq> ''update''" by (simp add: example_env_def)
  have ok: "\<forall>(k, c) \<in> set example_coverages. fetch_ok example_env k"
    by (simp add: example_coverages_def example_baselines)
  have g: "global_verdict example_env example_coverages =
      buildResultMessage example_env
        \<lparr>total = Fin 100, covered = Fin 85, coverage = Fin 85\<rparr>
        \<lparr>total = Fin 100, covered = Fin 85, coverage = Fin 85\<rparr>"
    unfolding global_verdict_def example_sums(1)
    by (simp add: example_coverages_def example_baselines example_sums(2))
  have f: "report_failed example_env example_coverages"
    by (simp add: example_coverages_def example_baselines baseline_integration_def snapshot_78_def)
  show ?thesis
    unfolding action_check_result [OF parseCoverages_example a ok] g
    using f
    by (simp add: example_coverages_def example_baselines example_configured
        setFailed_buildResultMessage)
qed
section \<open>The comparison verdict\<close>

text \<open>
  Claim C1. For every pair of snapshots, the comparison marks the run failed (and builds
  the failure message) exactly when the new coverage is strictly less than the old one;
  when the two coverages are equal, as values or as JavaScript compares them, the verdict
  is pass.
\<close>

theorem verdict_fail_iff_strictly_less:
  "(setFailed (buildResultMessage env oldCoverage newCoverage)
      = js_lt (coverage newCoverage) (coverage oldCoverage)) \<and>
   (message (buildResultMessage env oldCoverage newCoverage)
      = (if js_lt (coverage newCoverage) (coverage oldCoverage)
         then buildFailureMessage env oldCoverage newCoverage
         else buildSuccessMessage env oldCoverage newCoverage)) \<and>
   (coverage newCoverage = coverage oldCoverage \<or>
    js_eq (coverage newCoverage) (coverage oldCoverage)
      \<longrightarrow> \<not> setFailed (buildResultMessage env oldCoverage newCoverage))"
proof -
  have irrefl: "\<not> js_lt a a" for a
    by (cases a) simp_all
  have eq: "js_eq a b \<Longrightarrow> \<not> js_lt a b" for a b
    by (cases a; cases b) auto
  show ?thesis
    by (auto simp: buildResultMessage_def irrefl eq)
qed

theorem verdict_fail_iff_strictly_less_witness:
  "setFailed (buildResultMessage example_env snapshot_80 snapshot_79) \<and>
   js_eq (coverage snapshot_80) (coverage snapshot_80) \<and>
   \<not> setFailed (buildResultMessage example_env snapshot_80 snapshot_80)"
  using verdict_fail_iff_strictly_less [of example_env snapshot_80 snapshot_79]
    verdict_fail_iff_strictly_less [of example_env snapshot_80 snapshot_80]
  by (simp add: snapshot_80_def snapshot_79_def)

section \<open>The badge colour\<close>

text \<open>
  Claim C8. The badge colour is the colour of the first threshold, in ascending order,
  that the coverage is below: red below 50, orange below 75, yellow below 95, and green
  otherwise; 49.999 is red, 50 is orange, 94.999 is yellow and 95 is green.
\<close>

theorem badge_color_thresholds:
  "processBadgeColor c =
     (if js_lt c (Fin 50) then ''red''
      else if js_lt c (Fin 75) then ''orange''
      else if js_lt c (Fin 95) then ''yellow''
      else ''green'') \<and>
   processBadgeColor (Fin 49.999) = ''red'' \<and>
   processBadgeColor (Fin 50) = ''orange'' \<and>
   processBadgeColor (Fin 94.999) = ''yellow'' \<and>
   processBadgeColor (Fin 95) = ''green''"
  by (simp add: processBadgeColor_def colors_def)

section \<open>A report with zero elements\<close>

text \<open>
  Claim C2, as the code has it. For every report whose file is found and read, whose
  tree holds the metrics node with its attributes, and whose \<open>elements\<close> attribute parses
  to zero, \<open>parseCoverage\<close> raises no error: it returns the snapshot with that total, and
  its coverage is not a finite number: NaN when \<open>coveredelements\<close> parses to zero or to
  NaN, and otherwise an infinity, whose sign is that of the quotient.
\<close>

theorem zero_total_returns_snapshot:
  assumes "glob env file = Inr (f # fs)" and "readFileSync env f = Inr text"
    and "xml2js env text = Inr js" and "retrieveGlobalMetricsElement js = Inr metrics"
    and "attributes metrics = Some attrs" and "is_zero (parseIntAttr attrs ''elements'')"
  shows "parseCoverage env file =
      Inr \<lparr>total = parseIntAttr attrs ''elements'',
           covered = parseIntAttr attrs ''coveredelements'',
           coverage =
             (if parseIntAttr attrs ''coveredelements'' = NaN \<or>
                 is_zero (parseIntAttr attrs ''coveredelements'')
              then NaN
              else signed_inf (is_neg (parseIntAttr attrs ''coveredelements'') \<noteq>
                     is_neg (parseIntAttr attrs ''elements'')))\<rparr> \<and>
    (case parseCoverage env file of Inl e \<Rightarrow> False | Inr s \<Rightarrow> \<not> is_finite (coverage s))"
  using assms by (simp add: parseCoverage_def Let_def percentage_zero_total signed_inf_def)

theorem zero_total_returns_snapshot_witness:
  "parseCoverage example_env ''zero/clover.xml'' =
     Inr \<lparr>total = Fin 0, covered = Fin 5, coverage = PInf\<rparr> \<and>
   \<not> is_finite (coverage \<lparr>total = Fin 0, covered = Fin 5, coverage = PInf\<rparr>)"
  using zero_total_returns_snapshot [of example_env "''zero/clover.xml''" "''zero/clover.xml''" "[]"
      "''zero report''" "clover_tree ''0'' ''5''"
      "Node (Some ''metrics'') (Some [(''elements'', ''0''), (''coveredelements'', ''5'')]) (Some [])"
      "[(''elements'', ''0''), (''coveredelements'', ''5'')]"]
  by (simp add: example_env_def example_glob_def example_readFileSync_def
      example_xml2js_def metrics_clover_tree parseIntAttr_def parseInt10_examples signed_inf_def)

text \<open>
  Claim C2 as stated fails: the report with \<open>elements\<close> 0 and \<open>coveredelements\<close> 0 is parsed
  without an error, to a snapshot whose coverage is NaN.
\<close>

theorem zero_total_counterexample:
  "parseCoverage example_env ''empty/clover.xml'' =
     Inr \<lparr>total = Fin 0, covered = Fin 0, coverage = NaN\<rparr>"
  by (simp add: parseCoverage_def example_env_def example_glob_def example_readFileSync_def
      example_xml2js_def metrics_clover_tree parseIntAttr_def parseInt10_examples
      percentage_zero_total Let_def)

section \<open>A glob that matches several files\<close>



section \<open>The global snapshot\<close>



section \<open>The delta line\<close>

text \<open>
  Claim C5, as the code has it. For every pair of snapshots, the comparison message ends
  with the line made of the delta sign, a space and \<open>(new.coverage - old.coverage).toFixed(3)\<close>.
  That rendering starts with \<open>-\<close> for every negative delta; a positive delta (below
  \<open>10^21\<close>) is rendered by its digits alone, with no \<open>+\<close>; positive infinity is rendered
  as \<open>Infinity\<close>. The digits of a finite delta below \<open>10^21\<close> in magnitude denote the
  delta rounded to three decimals: they parse to the multiple of \<open>1/1000\<close> nearest to
  the magnitude, with the sign of the delta.
\<close>

theorem delta_rendering:
  "(\<exists>pre. message (buildResultMessage env oldCoverage newCoverage) =
      pre @ newline @ delta_sign @ '' '' @
      toFixed3 (numToString env) (js_sub (coverage newCoverage) (coverage oldCoverage)) @
      newline) \<and>
   (js_lt d (Fin 0) \<longrightarrow> hd (toFixed3 ts d) = CHR ''-'') \<and>
   (0 < r \<and> r < 10 ^ 21 \<longrightarrow>
      toFixed3 ts (Fin r) = fixed3_digits r \<and> is_digit (hd (toFixed3 ts (Fin r))) \<and>
      hd (toFixed3 ts (Fin r)) \<noteq> CHR ''+'') \<and>
   toFixed3 ts PInf = ''Infinity'' \<and>
   (\<bar>r\<bar> < 10 ^ 21 \<longrightarrow>
      parseFloat (toFixed3 ts (Fin r)) = signed_fin (r < 0) (round3 \<bar>r\<bar>) \<and>
      abs (round3 \<bar>r\<bar> - \<bar>r\<bar>) \<le> 1 / 2000)"
proof -
  have msg: "\<exists>pre. message (buildResultMessage env oldCoverage newCoverage) =
      pre @ newline @ delta_sign @ '' '' @
      toFixed3 (numToString env) (js_sub (coverage newCoverage) (coverage oldCoverage)) @
      newline"
  proof (cases "js_lt (coverage newCoverage) (coverage oldCoverage)")
    case True
    then have "message (buildResultMessage env oldCoverage newCoverage) =
        ('':x: Your code coverage has been degraded :sob:'' @
         join newline
           ['''',
            ''| Measure | Main branch | '' @ GITHUB_REF env @ '' |'',
            ''| --- | --- | --- |'',
            ''| Coverage | '' @ numToString env (coverage oldCoverage) @ ''% | '' @
              numToString env (coverage newCoverage) @ ''% |'',
            ''| Total lines | '' @ numToString env (total oldCoverage) @ '' | '' @
              numToString env (total newCoverage) @ '' |'',
            ''| Covered lines | '' @ numToString env (covered oldCoverage) @ '' | '' @
              numToString env (covered newCoverage) @ '' |'',
            '''']) @
        newline @ delta_sign @ '' '' @
        toFixed3 (numToString env) (js_sub (coverage newCoverage) (coverage oldCoverage)) @
        newline"
      by (simp only: buildResultMessage_def buildFailureMessage_def
          buildDeltaMessage_delta_line if_True verdict.simps append_assoc)
    then show ?thesis by blast
  next
    case False
    then have "message (buildResultMessage env oldCoverage newCoverage) =
        ('':white_check_mark: Your code coverage has not been degraded :tada:'' @
         join newline
           ['''',
            ''| Measure | Main branch | '' @ GITHUB_REF env @ '' |'',
            ''| --- | --- | --- |'',
            ''| Coverage | '' @ numToString env (coverage oldCoverage) @ ''% | '' @
              numToString env (coverage newCoverage) @ ''% |'',
            ''| Total lines | '' @ numToString env (total oldCoverage) @ '' | '' @
              numToString env (total newCoverage) @ '' |'',
            ''| Covered lines | '' @ numToString env (covered oldCoverage) @ '' | '' @
              numToString env (covered newCoverage) @ '' |'',
            '''']) @
        newline @ delta_sign @ '' '' @
        toFixed3 (numToString env) (js_sub (coverage newCoverage) (coverage oldCoverage)) @
        newline"
      by (simp only: buildResultMessage_def buildSuccessMessage_def
          buildDeltaMessage_delta_line if_False verdict.simps append_assoc)
    then show ?thesis by blast
  qed
  have pos: "0 < r \<and> r < 10 ^ 21 \<longrightarrow>
      toFixed3 ts (Fin r) = fixed3_digits r \<and> is_digit (hd (toFixed3 ts (Fin r))) \<and>
      hd (toFixed3 ts (Fin r)) \<noteq> CHR ''+''"
    using fixed3_digits_hd [of r] is_digit_not_special [of "hd (fixed3_digits r)"]
    by (simp add: toFixed3_positive)
  have rnd: "\<bar>r\<bar> < 10 ^ 21 \<longrightarrow>
      parseFloat (toFixed3 ts (Fin r)) = signed_fin (r < 0) (round3 \<bar>r\<bar>) \<and>
      abs (round3 \<bar>r\<bar> - \<bar>r\<bar>) \<le> 1 / 2000"
    using parseFloat_toFixed3_Fin [of r ts] round3_close [of "\<bar>r\<bar>"] by blast
  show ?thesis
    using msg pos rnd js_lt_zero_hd [of d ts] by simp
qed

theorem delta_rendering_witness:
  "(\<exists>pre. message (buildResultMessage example_env snapshot_80 snapshot_79) =
      pre @ newline @ delta_sign @ '' -1.000'' @ newline) \<and>
   hd (toFixed3 example_numToString (Fin (- 1))) = CHR ''-'' \<and>
   toFixed3 example_numToString (Fin 2) = ''2.000'' \<and>
   parseFloat (toFixed3 example_numToString (Fin (- 1))) = Fin (- 1)"
proof -
  note t = delta_rendering [of example_env snapshot_80 snapshot_79 "Fin (- 1)"
      example_numToString "- 1"]
  have d: "js_sub (coverage snapshot_79) (coverage snapshot_80) = Fin (- 1)"
    by (simp add: snapshot_80_def snapshot_79_def js_sub_def)
  have m: "\<exists>pre. message (buildResultMessage example_env snapshot_80 snapshot_79) =
      pre @ newline @ delta_sign @ '' -1.000'' @ newline"
    using t [THEN conjunct1]
    by (simp only: d toFixed3_examples) (simp add: example_env_def)
  have h: "hd (toFixed3 example_numToString (Fin (- 1))) = CHR ''-''"
    using t [THEN conjunct2, THEN conjunct1] by simp
  have r: "round3 1 = 1" by (simp add: round3_def floor_eq_iff)
  have p: "parseFloat (toFixed3 example_numToString (Fin (- 1))) = Fin (- 1)"
    using t [THEN conjunct2, THEN conjunct2, THEN conjunct2, THEN conjunct2]
    by (simp add: r signed_fin_def del: toFixed3.simps)
  show ?thesis
    using m h p by (simp only: toFixed3_examples simp_thms)
qed

text \<open>
  Claim C5 as stated fails on a positive delta: from 90 to 92 the delta line reads
  \<open>2.000\<close>, with no sign.
\<close>

theorem positive_delta_counterexample:
  "message (buildResultMessage example_env baseline_unit snapshot_92) =
     '':white_check_mark: Your code coverage has not been degraded :tada:'' @ newline @
     ''| Measure | Main branch | refs/pull/7/merge |'' @ newline @
     ''| --- | --- | --- |'' @ newline @
     ''| Coverage | 90% | 92% |'' @ newline @
     ''| Total lines | 50 | 50 |'' @ newline @
     ''| Covered lines | 45 | 46 |'' @ newline @
     newline @
     delta_sign @ '' 2.000'' @ newline"
  by (simp add: buildResultMessage_def buildSuccessMessage_def buildDeltaMessage_def
      baseline_unit_def snapshot_92_def example_env_def example_numToString_def
      js_sub_def toFixed3_examples nat_string_examples del: toFixed3.simps)

section \<open>The message of check mode\<close>

text \<open>
  Claim C7, as the code has it. In a run of check mode whose baseline fetches go well,
  the comparison is applied once per named report whose baseline is present (a report
  whose baseline is answered 404 gets no comparison), and one more comparison, the global
  one, is made exactly when the coverage map has more than one report. The message handed
  over for posting is the messages of the reports, in the order of the reports, then the
  global message, joined by the divider line \<open>---\<close>. The coverage map holds each key
  once, and each key is the \<open>summary\<close> of a configured report, as in every map that
  \<open>parseCoverages\<close> returns.
\<close>

theorem check_message_structure:
  assumes "distinct (map fst coverages)"
    and "\<forall>(k, c) \<in> set coverages. fetch_ok env k \<and> configured env k"
  shows "\<exists>v. check env coverages = Inr v \<and>
    message v =
      join divider
        (report_messages env coverages @
         (if length coverages > 1
          then [''*Global* '' @ newline @ newline @ message (global_verdict env coverages)]
          else []))"
  using check_result [OF assms] by simp

theorem check_message_structure_witness:
  "\<exists>v. check example_env example_coverages = Inr v \<and>
    message v =
      ''*unit* '' @ newline @ newline @
      message (buildResultMessage example_env baseline_unit snapshot_92) @
      divider @
      ''*integration* '' @ newline @ newline @
      message (buildResultMessage example_env baseline_integration snapshot_78) @
      divider @
      ''*Global* '' @ newline @ newline @
      message (buildResultMessage example_env
        \<lparr>total = Fin 100, covered = Fin 85, coverage = Fin 85\<rparr>
        \<lparr>total = Fin 100, covered = Fin 85, coverage = Fin 85\<rparr>)"
proof -
  have d: "distinct (map fst example_coverages)"
    by (simp add: example_coverages_def)
  have ok: "\<forall>(k, c) \<in> set example_coverages. fetch_ok example_env k \<and> configured example_env k"
    by (simp add: example_coverages_def example_baselines example_configured)
  have g: "global_verdict example_env example_coverages =
      buildResultMessage example_env
        \<lparr>total = Fin 100, covered = Fin 85, coverage = Fin 85\<rparr>
        \<lparr>total = Fin 100, covered = Fin 85, coverage = Fin 85\<rparr>"
    unfolding global_verdict_def example_sums(1)
    by (simp add: example_coverages_def example_baselines example_sums(2))
  show ?thesis
    using check_message_structure [OF d ok]
    unfolding g
    by (simp add: example_coverages_def example_baselines example_configured)
qed

text \<open>
  Claim C7 as stated fails when a baseline is absent: with one report and no baseline
  stored, no comparison is applied and the message is empty.
\<close>

theorem once_per_report_counterexample:
  "check no_baseline_env [(''unit.json'', snapshot_92)] = Inr \<lparr>setFailed = False, message = ''''\<rparr>"
  by (simp add: check_def check_step_def no_baseline_env_def)

section \<open>An absent baseline\<close>

text \<open>
  Claim C10. In check mode, a key whose baseline is answered 404 leaves the state of the
  loop as it is: no comparison, no message, and the run is not marked failed. So the
  baselines kept for the global comparison are those of the keys whose baseline is
  present, in order, while the new side of the global comparison sums all reports; when
  more than one report is configured the global comparison is made between these two
  sums, and when no baseline is present the global baseline is the sum of the empty map,
  whose coverage is NaN, so that the global verdict is pass. The hypotheses are those of
  a run whose fetches go well, on a coverage map that \<open>parseCoverages\<close> can return.
\<close>

theorem absent_baseline_skipped:
  assumes "distinct (map fst coverages)"
    and "\<forall>(k, c) \<in> set coverages. fetch_ok env k \<and> configured env k"
  shows "(fetchBaseCoverage env k = Inr r \<and> status r = 404 \<and> map_of coverages k = Some c
            \<longrightarrow> baseline env k = None \<and> check_step env coverages st k = Inr st) \<and>
    map fst (present_baselines env coverages) =
      filter (\<lambda>k. baseline env k \<noteq> None) (map fst coverages) \<and>
    map snd (present_baselines env coverages) =
      List.map_filter (baseline env) (map fst coverages) \<and>
    (length coverages > 1 \<longrightarrow>
       check env coverages =
         Inr \<lparr>setFailed =
                (report_failed env coverages \<or>
                 js_lt (coverage (sumCoverages (numToString env) coverages))
                   (coverage (sumCoverages (numToString env) (present_baselines env coverages)))),
              message = join divider
                (report_messages env coverages @
                 [''*Global* '' @ newline @ newline @
                  message (buildResultMessage env
                    (sumCoverages (numToString env) (present_baselines env coverages))
                    (sumCoverages (numToString env) coverages))])\<rparr>) \<and>
    (present_baselines env coverages = [] \<longrightarrow>
       sumCoverages (numToString env) (present_baselines env coverages) =
         \<lparr>total = Fin 0, covered = Fin 0, coverage = NaN\<rparr> \<and>
       \<not> setFailed (global_verdict env coverages))"
proof -
  have skip: "fetchBaseCoverage env k = Inr r \<and> status r = 404 \<and> map_of coverages k = Some c
      \<longrightarrow> baseline env k = None \<and> check_step env coverages st k = Inr st"
    by (simp add: check_step_def baseline_def)
  have glob: "length coverages > 1 \<longrightarrow>
       check env coverages =
         Inr \<lparr>setFailed =
                (report_failed env coverages \<or>
                 js_lt (coverage (sumCoverages (numToString env) coverages))
                   (coverage (sumCoverages (numToString env) (present_baselines env coverages)))),
              message = join divider
                (report_messages env coverages @
                 [''*Global* '' @ newline @ newline @
                  message (buildResultMessage env
                    (sumCoverages (numToString env) (present_baselines env coverages))
                    (sumCoverages (numToString env) coverages))])\<rparr>"
    using check_result [OF assms]
    by (simp add: global_verdict_def setFailed_buildResultMessage)
  have empty: "present_baselines env coverages = [] \<longrightarrow>
       sumCoverages (numToString env) (present_baselines env coverages) =
         \<lparr>total = Fin 0, covered = Fin 0, coverage = NaN\<rparr> \<and>
       \<not> setFailed (global_verdict env coverages)"
    by (simp add: global_verdict_def setFailed_buildResultMessage sumCoverages_empty js_lt_NaN)
  show ?thesis
    using skip glob empty present_baselines_keys [of env coverages]
      present_baselines_values [of env coverages]
    by blast
qed

theorem absent_baseline_skipped_witness:
  "check unit_baseline_env example_coverages =
     Inr \<lparr>setFailed = True,
          message =
            ''*unit* '' @ newline @ newline @
            message (buildResultMessage unit_baseline_env baseline_unit snapshot_92) @
            divider @
            ''*Global* '' @ newline @ newline @
            message (buildResultMessage unit_baseline_env
              \<lparr>total = Fin 50, covered = Fin 45, coverage = Fin 90\<rparr>
              \<lparr>total = Fin 100, covered = Fin 85, coverage = Fin 85\<rparr>)\<rparr> \<and>
   check no_baseline_env example_coverages =
     Inr \<lparr>setFailed = False,
          message =
            ''*Global* '' @ newline @ newline @
            message (buildResultMessage no_baseline_env
              \<lparr>total = Fin 0, covered = Fin 0, coverage = NaN\<rparr>
              \<lparr>total = Fin 100, covered = Fin 85, coverage = Fin 85\<rparr>)\<rparr>"
proof -
  have d: "distinct (map fst example_coverages)"
    by (simp add: example_coverages_def)
  have ok1: "\<forall>(k, c) \<in> set example_coverages.
      fetch_ok unit_baseline_env k \<and> configured unit_baseline_env k"
    by (simp add: example_coverages_def unit_baseline_facts)
  have ok2: "\<forall>(k, c) \<in> set example_coverages.
      fetch_ok no_baseline_env k \<and> configured no_baseline_env k"
    by (simp add: example_coverages_def no_baseline_facts)
  have l: "length example_coverages > 1" by (simp add: example_coverages_def)
  have p1: "present_baselines unit_baseline_env example_coverages = [(''unit.json'', baseline_unit)]"
    by (simp add: example_coverages_def unit_baseline_facts)
  have p2: "present_baselines no_baseline_env example_coverages = []"
    by (simp add: example_coverages_def no_baseline_facts)
  have m1: "report_messages unit_baseline_env example_coverages =
      [''*unit* '' @ newline @ newline @
       message (buildResultMessage unit_baseline_env baseline_unit snapshot_92)]"
    by (simp add: example_coverages_def unit_baseline_facts)
  have m2: "report_messages no_baseline_env example_coverages = []"
    by (simp add: example_coverages_def no_baseline_facts)
  have f1: "report_failed unit_baseline_env example_coverages = False"
    by (simp add: example_coverages_def unit_baseline_facts baseline_unit_def snapshot_92_def)
  have f2: "report_failed no_baseline_env example_coverages = False"
    by (simp add: example_coverages_def no_baseline_facts)
  note t1 = absent_baseline_skipped [OF d ok1, THEN conjunct2, THEN conjunct2, THEN conjunct2,
      THEN conjunct1, rule_format, OF l]
  note t2 = absent_baseline_skipped [OF d ok2, THEN conjunct2, THEN conjunct2, THEN conjunct2,
      THEN conjunct1, rule_format, OF l]
  have r1: "check unit_baseline_env example_coverages =
     Inr \<lparr>setFailed = True,
          message =
            ''*unit* '' @ newline @ newline @
            message (buildResultMessage unit_baseline_env baseline_unit snapshot_92) @
            divider @
            ''*Global* '' @ newline @ newline @
            message (buildResultMessage unit_baseline_env
              \<lparr>total = Fin 50, covered = Fin 45, coverage = Fin 90\<rparr>
              \<lparr>total = Fin 100, covered = Fin 85, coverage = Fin 85\<rparr>)\<rparr>"
    unfolding t1 p1 m1 f1 example_sums by simp
  have r2: "check no_baseline_env example_coverages =
     Inr \<lparr>setFailed = False,
          message =
            ''*Global* '' @ newline @ newline @
            message (buildResultMessage no_baseline_env
              \<lparr>total = Fin 0, covered = Fin 0, coverage = NaN\<rparr>
              \<lparr>total = Fin 100, covered = Fin 85, coverage = Fin 85\<rparr>)\<rparr>"
    unfolding t2 p2 m2 f2 example_sums sumCoverages_empty by simp
  show ?thesis using r1 r2 by simp
qed

section \<open>Loading the history\<close>

text \<open>
  Claim C4, as the code has it. The history is the empty ledger, and the run goes on,
  whenever the response has a status other than 200: not-found, and also an
  authentication failure or a server error. With status 200 the history is the decoded
  body, and the run stops if the body does not decode. A rejected fetch (a network
  failure) stops \<open>update\<close>, and so the run, with that failure.
\<close>

theorem history_load:
  "(fetchHistory env = Inr r \<and> status r \<noteq> 200 \<longrightarrow> loadHistory env = Inr []) \<and>
   (fetchHistory env = Inr r \<and> status r = 200 \<longrightarrow> loadHistory env = json r) \<and>
   (fetchHistory env = Inl e \<longrightarrow> loadHistory env = Inl e) \<and>
   (clone env = Inr workingDir \<and> loadHistory env = Inl e \<longrightarrow> update env coverages = Inl e) \<and>
   (parseCoverages env = Inr coverages \<and> ACTION env = ''update'' \<and>
    update env coverages = Inl e \<longrightarrow> action env = Inl e)"
  by (simp add: loadHistory_def update_def action_def)

theorem history_load_witness:
  "loadHistory no_history_env = Inr [] \<and>
   loadHistory example_env = Inr example_history \<and>
   loadHistory offline_env = Inl (Thrown ''ECONNRESET'') \<and>
   update offline_env example_coverages = Inl (Thrown ''ECONNRESET'')"
proof -
  have a: "loadHistory no_history_env = Inr []"
    using history_load [of no_history_env
        "\<lparr>status = 404, json = Inl (Thrown ''Unexpected token'')\<rparr>"]
    by (simp add: no_history_env_def example_env_def)
  have b: "loadHistory example_env = Inr example_history"
    using history_load [of example_env "\<lparr>status = 200, json = Inr example_history\<rparr>"]
    by (simp add: example_env_def)
  have c: "loadHistory offline_env = Inl (Thrown ''ECONNRESET'')"
    using history_load [of offline_env _ "Thrown ''ECONNRESET''"]
    by (simp add: offline_env_def example_env_def)
  have d: "update offline_env example_coverages = Inl (Thrown ''ECONNRESET'')"
    using history_load [of offline_env _ "Thrown ''ECONNRESET''" "''repo-1762164000000''"
        example_coverages] c
    by (simp add: offline_env_def example_env_def)
  show ?thesis using a b c d by simp
qed

text \<open>
  Claim C4 as stated fails on a status other than 200 and 404: when the history is
  answered 401, the run goes through with the empty ledger and writes a ledger that holds
  the entries of this run only.
\<close>

theorem other_status_counterexample:
  "loadHistory unauthorized_env = Inr [] \<and>
   update unauthorized_env example_coverages =
     Inr [(''repo-1762164000000/unit.json'', SnapshotJson snapshot_92),
          (''repo-1762164000000/unit.svg'', BadgeText ''<svg/>''),
          (''repo-1762164000000/integration.json'', SnapshotJson snapshot_78),
          (''repo-1762164000000/coverage-history.json'',
           HistoryJson [(''unit'', [entry_unit]), (''integration'', [entry_integration])])]"
  by (simp add: update_def loadHistory_def update_step_def unauthorized_env_def example_env_def
      example_files_def example_coverages_def example_now_def HISTORY_FILENAME_def
      entry_unit_def entry_integration_def snapshot_92_def snapshot_78_def)

section \<open>The history ledger\<close>

text \<open>
  Claim C6, as the code has it. In a run of update mode that goes through (the clone, the
  load of the history, the badges and the push go well), the ledger is written exactly
  once, by the last write of the run, after the loop; and for every label, its sequence
  in the written ledger is its sequence in the loaded ledger, unchanged, followed by the
  entries of this run: one entry for each report whose display label it is, in the order
  of the reports. A label is absent from the written ledger only when it was absent before
  and no report carries it. So a label carried by exactly one report receives exactly one
  entry, placed last. The coverage map holds each key once, as every map that
  \<open>parseCoverages\<close> returns.
\<close>

theorem history_append:
  assumes "distinct (map fst coverages)"
    and "\<forall>(k, c) \<in> set coverages. update_ok env k c"
    and "clone env = Inr workingDir" and "loadHistory env = Inr h"
    and "push env workingDir = None"
  shows "\<exists>ws h'. update env coverages =
      Inr (ws @ [(workingDir @ ''/'' @ HISTORY_FILENAME, HistoryJson h')]) \<and>
    (\<forall>w \<in> set ws. \<not> is_history (snd w)) \<and>
    (\<forall>L. entries_of h' L = entries_of h L @ appended env 0 coverages L \<and>
         (map_of h' L = None \<longleftrightarrow> map_of h L = None \<and> appended env 0 coverages L = []) \<and>
         length (appended env 0 coverages L) =
           length (filter (\<lambda>(k, c). label_of env k = L) coverages))"
  using update_result [OF assms] length_appended [of env 0 coverages] by blast

theorem history_append_witness:
  "\<exists>ws h'. update example_env example_coverages =
      Inr (ws @ [(''repo-1762164000000/coverage-history.json'', HistoryJson h')]) \<and>
    entries_of h' ''unit'' = [entry_old, entry_unit] \<and>
    entries_of h' ''integration'' = [entry_integration] \<and>
    length (appended example_env 0 example_coverages ''unit'') = 1"
proof -
  have d: "distinct (map fst example_coverages)"
    by (simp add: example_coverages_def)
  have ok: "\<forall>(k, c) \<in> set example_coverages. update_ok example_env k c"
    by (simp add: example_coverages_def example_update_ok)
  obtain ws h' where run: "update example_env example_coverages =
      Inr (ws @ [(''repo-1762164000000'' @ ''/'' @ HISTORY_FILENAME, HistoryJson h')])"
    and ent: "\<forall>L. entries_of h' L =
        entries_of example_history L @ appended example_env 0 example_coverages L \<and>
        (map_of h' L = None \<longleftrightarrow>
           map_of example_history L = None \<and> appended example_env 0 example_coverages L = []) \<and>
        length (appended example_env 0 example_coverages L) =
          length (filter (\<lambda>(k, c). label_of example_env k = L) example_coverages)"
    using history_append [OF d ok example_update_ok(5) example_update_ok(6) example_update_ok(7)]
    by blast
  have u: "entries_of h' ''unit'' = [entry_old, entry_unit]"
    using ent [rule_format, of "''unit''"]
    by (simp add: entries_of_def example_history_def example_coverages_def example_update_ok
        entry_old_def entry_unit_def snapshot_92_def)
  have i: "entries_of h' ''integration'' = [entry_integration]"
    using ent [rule_format, of "''integration''"]
    by (simp add: entries_of_def example_history_def example_coverages_def example_update_ok
        entry_integration_def snapshot_78_def)
  have n: "length (appended example_env 0 example_coverages ''unit'') = 1"
    by (simp add: example_coverages_def example_update_ok)
  have run': "update example_env example_coverages =
      Inr (ws @ [(''repo-1762164000000/coverage-history.json'', HistoryJson h')])"
    using run by (simp add: HISTORY_FILENAME_def)
  show ?thesis using run' u i n by blast
qed

text \<open>
  Claim C6 as stated fails when two reports share a display label: the label \<open>backend\<close>
  receives two entries in one run.
\<close>

theorem one_entry_per_label_counterexample:
  "update shared_label_env example_coverages =
     Inr [(''repo-1762164000000/unit.json'', SnapshotJson snapshot_92),
          (''repo-1762164000000/integration.json'', SnapshotJson snapshot_78),
          (''repo-1762164000000/coverage-history.json'',
           HistoryJson [(''unit'', [entry_old]),
                        (''backend'', [entry_unit, entry_integration])])]"
  by (simp add: update_def loadHistory_def update_step_def shared_label_env_def example_env_def
      example_coverages_def example_history_def example_now_def HISTORY_FILENAME_def
      entry_old_def entry_unit_def entry_integration_def snapshot_92_def snapshot_78_def)

end
